theory Spec2Isabelle
  imports Complex_Main "HOL-Library.Char_ord" "HOL-Library.List_Lexorder" "HOL-Library.Multiset"
begin

section \<open>Values\<close>

text \<open>
  The job-market summary service (\<^verbatim>\<open>app.py\<close>) loads one spreadsheet into a pandas
  frame and answers every request by scanning that frame. The embedding keeps the
  shape of the source: one HOL function per Python function, under the same name.

  Python floats are modelled by exact rationals plus the one special value the
  source can produce and test for, \<open>NaN\<close>; infinities are not modelled, and
  arithmetic is exact. Rounding to one decimal place is recorded and not
  carried out (see \<open>JRound1\<close>), since its digit depends on the binary float.
  A spreadsheet cell is empty (pandas reads it as NaN), a number or a text. A
  text is the list of the bytes of its UTF-8 encoding, so that a character of
  ASCII is one \<open>char\<close>.
\<close>

datatype pyfloat = NaN | Fin rat

datatype cell = CNaN | CNum rat | CStr string

text \<open>
  One entry of a decoded \<^verbatim>\<open>Automatability_Analysis\<close> list. The source reads three
  keys of it. Each may be missing (\<open>None\<close>); \<^verbatim>\<open>automatability_flag\<close> and
  \<^verbatim>\<open>importance_classification\<close> hold text when present; \<^verbatim>\<open>question\<close> holds a list
  whose items are text or something else, or a value that is no list at all
  (null included). Entries that are not JSON objects, and flags or classifications
  that are not text, are outside this model.
\<close>

datatype question_item = QStr string | QOther

datatype question_val = QList "question_item list" | QNotList

record task =
  automatability_flag :: "string option"
  importance_classification :: "string option"
  question :: "question_val option"

text \<open>
  What \<^verbatim>\<open>jsonify\<close> is given: the response bodies, with their keys.
  \<open>JInt\<close> is a count. \<open>JNum x\<close> is a number of the data with the value
  \<open>x\<close>; whether Python holds it as a float or as an int is a matter of the
  column type that pandas chose and is not modelled. \<open>JRound1 x\<close> is the number
  \<^verbatim>\<open>round(v, 1)\<close> for the float \<open>v\<close> that the source computes where exact
  arithmetic gives \<open>x\<close>; the model keeps \<open>x\<close> and does not fix the digit.
\<close>

datatype json =
    JInt int
  | JNum rat
  | JRound1 rat
  | JNaN
  | JStr string
  | JArr "json list"
  | JObj "(string \<times> json) list"

text \<open>
  A handler answers with a body, or with an error: the two explicit error
  responses of the source (\<open>NoDataAvailable\<close>, status 500, and
  \<open>LevelNotAvailable\<close>, status 400), or an exception that nothing catches (the
  framework answers 500). Inside \<^verbatim>\<open>load_job_data\<close> every exception is caught and
  turned into the result \<^verbatim>\<open>False\<close>.
\<close>

datatype error =
    NoDataAvailable
  | LevelNotAvailable string
  | SourceUnreadable
  | KeyError string
  | JSONDecodeError

fun jget :: "json \<Rightarrow> string \<Rightarrow> json option" where
  "jget (JObj kvs) k = map_of kvs k"
| "jget _ k = None"

fun jkeys :: "json \<Rightarrow> string list" where
  "jkeys (JObj kvs) = map fst kvs"
| "jkeys _ = []"

fun float_json :: "pyfloat \<Rightarrow> json" where
  "float_json NaN = JNaN"
| "float_json (Fin x) = JNum x"

text \<open>\<^verbatim>\<open>round(v, 1)\<close> of a float: NaN stays NaN.\<close>

fun round1_json :: "pyfloat \<Rightarrow> json" where
  "round1_json NaN = JNaN"
| "round1_json (Fin x) = JRound1 x"

fun cell_json :: "cell \<Rightarrow> json" where
  "cell_json CNaN = JNaN"
| "cell_json (CNum x) = JNum x"
| "cell_json (CStr s) = JStr s"

section \<open>Python and pandas primitives\<close>

definition py_upper_letters :: string where
  "py_upper_letters = ''ABCDEFGHIJKLMNOPQRSTUVWXYZ''"

definition py_lower_letters :: string where
  "py_lower_letters = ''abcdefghijklmnopqrstuvwxyz''"

definition lower_char :: "char \<Rightarrow> char" where
  "lower_char c =
     (case map_of (zip py_upper_letters py_lower_letters) c of Some l \<Rightarrow> l | None \<Rightarrow> c)"

definition upper_char :: "char \<Rightarrow> char" where
  "upper_char c =
     (case map_of (zip py_lower_letters py_upper_letters) c of Some u \<Rightarrow> u | None \<Rightarrow> c)"

text \<open>
  \<^verbatim>\<open>str.lower()\<close>, exact on ASCII: the bytes of other characters are left as they
  are. The source compares the lowered text with \<^verbatim>\<open>primary\<close>, \<^verbatim>\<open>secondary\<close>
  and \<^verbatim>\<open>ancillary\<close> only, and no character outside ASCII lowers to a letter of
  these words, so that every such comparison comes out as in Python.
\<close>

definition py_lower :: "string \<Rightarrow> string" where
  "py_lower s = map lower_char s"

text \<open>
  \<^verbatim>\<open>str.title()\<close>: a letter that follows a letter is lowered, a letter that does
  not is raised, and everything else is kept and ends the word. This is
  \<^verbatim>\<open>str.title()\<close> for ASCII text only; the letters of other alphabets need the
  Unicode tables, and what is proved of titled text is stated for ASCII text.
\<close>

fun title_from :: "bool \<Rightarrow> string \<Rightarrow> string" where
  "title_from previous_is_cased [] = []"
| "title_from previous_is_cased (c # cs) =
     (if c \<in> set py_lower_letters \<or> c \<in> set py_upper_letters
      then (if previous_is_cased then lower_char c else upper_char c) # title_from True cs
      else c # title_from False cs)"

definition py_title :: "string \<Rightarrow> string" where
  "py_title s = title_from False s"

definition py_replace_char :: "char \<Rightarrow> char \<Rightarrow> string \<Rightarrow> string" where
  "py_replace_char old new s = map (\<lambda>c. if c = old then new else c) s"

text \<open>
  \<^verbatim>\<open>str.strip()\<close> removes the white space of Unicode at both ends: the ten
  characters of ASCII below, U+0085, U+00A0, U+1680, U+2000 to U+200A, U+2028,
  U+2029, U+202F, U+205F and U+3000. In UTF-8 the others take two or three bytes.
\<close>

definition py_is_space :: "char \<Rightarrow> bool" where
  "py_is_space c =
     (c \<in> set [CHR 0x09, CHR 0x0A, CHR 0x0B, CHR 0x0C, CHR 0x0D,
                CHR 0x1C, CHR 0x1D, CHR 0x1E, CHR 0x1F, CHR 0x20])"

definition py_is_space2 :: "char \<Rightarrow> char \<Rightarrow> bool" where
  "py_is_space2 c1 c2 = (c1 = CHR 0xC2 \<and> (c2 = CHR 0x85 \<or> c2 = CHR 0xA0))"

definition py_is_space3 :: "char \<Rightarrow> char \<Rightarrow> char \<Rightarrow> bool" where
  "py_is_space3 c1 c2 c3 =
     ((c1 = CHR 0xE1 \<and> c2 = CHR 0x9A \<and> c3 = CHR 0x80)
      \<or> (c1 = CHR 0xE2 \<and> c2 = CHR 0x80
          \<and> c3 \<in> set [CHR 0x80, CHR 0x81, CHR 0x82, CHR 0x83, CHR 0x84, CHR 0x85, CHR 0x86,
                         CHR 0x87, CHR 0x88, CHR 0x89, CHR 0x8A, CHR 0xA8, CHR 0xA9, CHR 0xAF])
      \<or> (c1 = CHR 0xE2 \<and> c2 = CHR 0x81 \<and> c3 = CHR 0x9F)
      \<or> (c1 = CHR 0xE3 \<and> c2 = CHR 0x80 \<and> c3 = CHR 0x80))"

text \<open>
  Stripping on the left. With \<open>backwards\<close> the text is read from its end, each
  character with its bytes in reverse order.
\<close>

fun strip_front :: "bool \<Rightarrow> string \<Rightarrow> string" where
  "strip_front backwards (c1 # c2 # c3 # cs) =
     (if py_is_space c1 then strip_front backwards (c2 # c3 # cs)
      else if (if backwards then py_is_space2 c2 c1 else py_is_space2 c1 c2)
      then strip_front backwards (c3 # cs)
      else if (if backwards then py_is_space3 c3 c2 c1 else py_is_space3 c1 c2 c3)
      then strip_front backwards cs
      else c1 # c2 # c3 # cs)"
| "strip_front backwards [c1, c2] =
     (if py_is_space c1 then strip_front backwards [c2]
      else if (if backwards then py_is_space2 c2 c1 else py_is_space2 c1 c2) then []
      else [c1, c2])"
| "strip_front backwards [c1] = (if py_is_space c1 then [] else [c1])"
| "strip_front backwards [] = []"

definition py_strip :: "string \<Rightarrow> string" where
  "py_strip s = rev (strip_front True (rev (strip_front False s)))"

definition py_startswith :: "string \<Rightarrow> string \<Rightarrow> bool" where
  "py_startswith s p = (take (length p) s = p)"

text \<open>Comparisons of a float with a constant: every comparison with NaN is false.\<close>

fun float_lt :: "pyfloat \<Rightarrow> rat \<Rightarrow> bool" where
  "float_lt NaN y = False"
| "float_lt (Fin x) y = (x < y)"

fun float_ge :: "pyfloat \<Rightarrow> rat \<Rightarrow> bool" where
  "float_ge NaN y = False"
| "float_ge (Fin x) y = (x \<ge> y)"

text \<open>\<^verbatim>\<open>Series.mean()\<close> skips NaN and is NaN when nothing is left.\<close>

fun finite_values :: "pyfloat list \<Rightarrow> rat list" where
  "finite_values [] = []"
| "finite_values (NaN # xs) = finite_values xs"
| "finite_values (Fin x # xs) = x # finite_values xs"

definition series_mean :: "pyfloat list \<Rightarrow> pyfloat" where
  "series_mean xs =
     (let vs = finite_values xs
      in if vs = [] then NaN else Fin (sum_list vs / of_nat (length vs)))"

text \<open>\<^verbatim>\<open>Series.nunique()\<close>: the number of distinct values, NaN left out.\<close>

definition nunique :: "cell list \<Rightarrow> nat" where
  "nunique vs = length (remdups (filter (\<lambda>v. v \<noteq> CNaN) vs))"

text \<open>
  \<^verbatim>\<open>collections.Counter\<close>: a dictionary from items to counts that keeps the order
  in which the keys were first seen. \<^verbatim>\<open>most_common(n)\<close> is the first \<open>n\<close> entries
  of the stable sort by falling count.
\<close>

fun counter_add :: "'a \<Rightarrow> ('a \<times> nat) list \<Rightarrow> ('a \<times> nat) list" where
  "counter_add x [] = [(x, 1)]"
| "counter_add x ((k, n) # kvs) =
     (if k = x then (k, Suc n) # kvs else (k, n) # counter_add x kvs)"

definition Counter :: "'a list \<Rightarrow> ('a \<times> nat) list" where
  "Counter xs = foldl (\<lambda>c x. counter_add x c) [] xs"

definition counter_get :: "('a \<times> nat) list \<Rightarrow> 'a \<Rightarrow> nat" where
  "counter_get c k = (case map_of c k of None \<Rightarrow> 0 | Some n \<Rightarrow> n)"

definition most_common :: "nat \<Rightarrow> ('a \<times> nat) list \<Rightarrow> ('a \<times> nat) list" where
  "most_common n c = take n (sort_key (\<lambda>kv. - int (snd kv)) c)"

section \<open>The data frame and its loading\<close>

text \<open>
  The spreadsheet as \<^verbatim>\<open>pd.read_excel\<close> returns it: the column names, and one
  function from column name to cell per row.
\<close>

record raw_table =
  raw_columns :: "string list"
  raw_rows :: "(string \<Rightarrow> cell) list"

text \<open>
  The frame held in the global \<^verbatim>\<open>job_data\<close>. The two score columns and the column
  of decoded task lists are fields of their own; every other column is read
  through \<open>cells\<close>.
\<close>

record job_row =
  auto_score :: pyfloat
  manual_score :: pyfloat
  cells :: "string \<Rightarrow> cell"
  Automatability_Analysis_Parsed :: "task list"

record dataframe =
  columns :: "string list"
  rows :: "job_row list"

text \<open>
  \<^verbatim>\<open>pd.to_numeric(..., errors='coerce')\<close>: a number stays, a text that reads as a
  number becomes it, everything else becomes NaN. How pandas reads a number out
  of a text is the parameter \<open>parse_number\<close>.
\<close>

fun to_numeric :: "(string \<Rightarrow> rat option) \<Rightarrow> cell \<Rightarrow> pyfloat" where
  "to_numeric parse_number CNaN = NaN"
| "to_numeric parse_number (CNum x) = Fin x"
| "to_numeric parse_number (CStr s) =
     (case parse_number s of None \<Rightarrow> NaN | Some x \<Rightarrow> Fin x)"

text \<open>
  The lambda of lines 19-21. \<^verbatim>\<open>json.loads\<close> is the parameter \<open>json_loads\<close>:
  \<open>None\<close> stands for the \<^verbatim>\<open>JSONDecodeError\<close> it raises on a text that is not JSON.
\<close>

definition parse_analysis :: "(string \<Rightarrow> task list option) \<Rightarrow> cell \<Rightarrow> error + task list" where
  "parse_analysis json_loads x =
     (case x of
        CStr s \<Rightarrow>
          if py_startswith (py_strip s) ''[''
          then (case json_loads s of None \<Rightarrow> Inl JSONDecodeError | Some ts \<Rightarrow> Inr ts)
          else Inr []
      | _ \<Rightarrow> Inr [])"

text \<open>\<^verbatim>\<open>Series.apply\<close>: row by row; the first exception ends it.\<close>

fun apply_rows :: "('a \<Rightarrow> error + 'b) \<Rightarrow> 'a list \<Rightarrow> error + 'b list" where
  "apply_rows f [] = Inr []"
| "apply_rows f (x # xs) =
     (case f x of
        Inl e \<Rightarrow> Inl e
      | Inr y \<Rightarrow> (case apply_rows f xs of Inl e \<Rightarrow> Inl e | Inr ys \<Rightarrow> Inr (y # ys)))"

definition parsed_column :: string where
  "parsed_column = ''Automatability_Analysis_Parsed''"

text \<open>
  \<^verbatim>\<open>load_job_data\<close>. \<open>Inr df\<close>: the global is set to \<open>df\<close> and the function
  returns \<^verbatim>\<open>True\<close>. \<open>Inl e\<close>: the exception \<open>e\<close> was caught at line 25, the
  global is left as it was and the function returns \<^verbatim>\<open>False\<close>. The source is
  \<open>None\<close> when the file cannot be read.
\<close>

definition load_job_data ::
  "(string \<Rightarrow> task list option) \<Rightarrow> (string \<Rightarrow> rat option) \<Rightarrow> raw_table option
     \<Rightarrow> error + dataframe" where
  "load_job_data json_loads parse_number source =
     (case source of
        None \<Rightarrow> Inl SourceUnreadable
      | Some df \<Rightarrow>
          if ''auto_score'' \<notin> set (raw_columns df) then Inl (KeyError ''auto_score'')
          else if ''manual_score'' \<notin> set (raw_columns df) then Inl (KeyError ''manual_score'')
          else
            let kept = filter (\<lambda>r. to_numeric parse_number (r ''auto_score'') \<noteq> NaN
                                  \<and> to_numeric parse_number (r ''manual_score'') \<noteq> NaN)
                         (raw_rows df)
            in if ''Automatability_Analysis'' \<notin> set (raw_columns df)
               then Inl (KeyError ''Automatability_Analysis'')
               else
                 (case apply_rows
                         (\<lambda>r. case parse_analysis json_loads (r ''Automatability_Analysis'') of
                                 Inl e \<Rightarrow> Inl e
                               | Inr ts \<Rightarrow>
                                   Inr \<lparr>auto_score = to_numeric parse_number (r ''auto_score''),
                                        manual_score = to_numeric parse_number (r ''manual_score''),
                                        cells = r,
                                        Automatability_Analysis_Parsed = ts\<rparr>)
                         kept of
                    Inl e \<Rightarrow> Inl e
                  | Inr rs \<Rightarrow>
                      Inr \<lparr>columns =
                             (if parsed_column \<in> set (raw_columns df) then raw_columns df
                              else raw_columns df @ [parsed_column]),
                           rows = rs\<rparr>))"

text \<open>
  The guard that opens every handler:
  \<^verbatim>\<open>if job_data is None and not load_job_data(): return error, 500\<close>.
\<close>

definition with_job_data ::
  "(string \<Rightarrow> task list option) \<Rightarrow> (string \<Rightarrow> rat option) \<Rightarrow> raw_table option
     \<Rightarrow> dataframe option \<Rightarrow> (dataframe \<Rightarrow> error + json) \<Rightarrow> error + json" where
  "with_job_data json_loads parse_number source job_data handler =
     (case job_data of
        Some df \<Rightarrow> handler df
      | None \<Rightarrow>
          (case load_job_data json_loads parse_number source of
             Inl e \<Rightarrow> Inl NoDataAvailable
           | Inr df \<Rightarrow> handler df))"

section \<open>The taxonomy filter\<close>

text \<open>
  A request carries two optional arguments, \<^verbatim>\<open>category\<close> and \<^verbatim>\<open>level\<close>; the level
  defaults to \<^verbatim>\<open>'4'\<close> and names the column \<^verbatim>\<open>level_<level>_name\<close>.
\<close>

definition level_arg :: "string option \<Rightarrow> string" where
  "level_arg level = (case level of None \<Rightarrow> ''4'' | Some l \<Rightarrow> l)"

definition level_column :: "string \<Rightarrow> string" where
  "level_column level = ''level_'' @ level @ ''_name''"

text \<open>
  The five lines every filtering handler repeats (105-109, 140-144, 233-237,
  365-369): \<^verbatim>\<open>if category:\<close> is false for a missing and for an empty category;
  a column that the frame does not have leaves the frame as it is.
\<close>

definition filter_category :: "dataframe \<Rightarrow> string option \<Rightarrow> string option \<Rightarrow> dataframe" where
  "filter_category job_data category level =
     (case category of
        None \<Rightarrow> job_data
      | Some c \<Rightarrow>
          if c = [] then job_data
          else if level_column (level_arg level) \<in> set (columns job_data)
          then job_data\<lparr>rows :=
                 filter (\<lambda>r. cells r (level_column (level_arg level)) = CStr c) (rows job_data)\<rparr>
          else job_data)"

section \<open>The handlers\<close>

subsection \<open>\<^verbatim>\<open>/api/categories\<close>\<close>


subsection \<open>\<^verbatim>\<open>/api/stats\<close>\<close>

definition get_stats :: "dataframe \<Rightarrow> error + json" where
  "get_stats job_data =
     (let sector_count =
            (if ''Sector'' \<in> set (columns job_data)
             then nunique (map (\<lambda>r. cells r ''Sector'') (rows job_data)) else 0)
      in if ''level_4_name'' \<notin> set (columns job_data) then Inl (KeyError ''level_4_name'')
         else Inr (JObj
           [(''total_jobs'', JInt (int (length (rows job_data)))),
            (''unique_level_4_categories'',
               JInt (int (nunique (map (\<lambda>r. cells r ''level_4_name'') (rows job_data))))),
            (''sector_count'', JInt (int sector_count)),
            (''avg_auto_score'',
               round1_json (series_mean (map auto_score (rows job_data)))),
            (''avg_manual_score'',
               round1_json (series_mean (map manual_score (rows job_data))))]))"

subsection \<open>\<^verbatim>\<open>/api/jobs\<close>\<close>

text \<open>
  The argument \<^verbatim>\<open>fetch_all\<close> is read and never used. The two scores are
  emitted as pandas holds them (see \<open>JNum\<close>).
\<close>

definition job_dict :: "string list \<Rightarrow> job_row \<Rightarrow> json" where
  "job_dict cols row =
     JObj ([(''auto_score'', float_json (auto_score row)),
            (''manual_score'', float_json (manual_score row))]
           @ map (\<lambda>level_col. (level_col, cell_json (cells row level_col)))
               (filter (\<lambda>level_col. level_col \<in> set cols)
                  (map level_column [''1'', ''2'', ''3'', ''4''])))"

definition get_jobs :: "dataframe \<Rightarrow> string option \<Rightarrow> string option \<Rightarrow> error + json" where
  "get_jobs job_data category level =
     (let filtered_data = filter_category job_data category level
      in if rows filtered_data = [] then Inr (JArr [])
         else Inr (JArr (map (job_dict (columns filtered_data)) (rows filtered_data))))"

subsection \<open>\<^verbatim>\<open>/api/risk_distribution\<close>\<close>

definition get_risk_distribution :: "dataframe \<Rightarrow> string option \<Rightarrow> string option \<Rightarrow> error + json" where
  "get_risk_distribution job_data category level =
     (let filtered_data = filter_category job_data category level;
          low_risk = length (filter (\<lambda>r. float_lt (auto_score r) 30) (rows filtered_data));
          medium_risk =
            length (filter (\<lambda>r. float_ge (auto_score r) 30 \<and> float_lt (auto_score r) 60)
                      (rows filtered_data));
          high_risk = length (filter (\<lambda>r. float_ge (auto_score r) 60) (rows filtered_data))
      in Inr (JObj
           [(''low_risk'', JInt (int low_risk)),
            (''medium_risk'', JInt (int medium_risk)),
            (''high_risk'', JInt (int high_risk)),
            (''total'', JInt (int (length (rows filtered_data))))]))"

subsection \<open>Frames of tasks\<close>

text \<open>
  \<^verbatim>\<open>pd.DataFrame(all_tasks)\<close>: one row per task and one column per key that some
  task has; a task without the key holds NaN there. Reading a column that no task
  has raises \<^verbatim>\<open>KeyError\<close>. Selecting rows by a mask keeps the columns.
\<close>

record task_frame =
  task_columns :: "string list"
  task_rows :: "task list"

definition task_has_key :: "task \<Rightarrow> string \<Rightarrow> bool" where
  "task_has_key t k =
     (if k = ''automatability_flag'' then automatability_flag t \<noteq> None
      else if k = ''importance_classification'' then importance_classification t \<noteq> None
      else if k = ''question'' then question t \<noteq> None
      else False)"

definition DataFrame :: "task list \<Rightarrow> task_frame" where
  "DataFrame all_tasks =
     \<lparr>task_columns =
        filter (\<lambda>k. list_ex (\<lambda>t. task_has_key t k) all_tasks)
          [''automatability_flag'', ''importance_classification'', ''question''],
      task_rows = all_tasks\<rparr>"

definition select_rows :: "(task \<Rightarrow> bool) \<Rightarrow> task_frame \<Rightarrow> task_frame" where
  "select_rows keep df = df\<lparr>task_rows := filter keep (task_rows df)\<rparr>"

definition is_automatable :: "task \<Rightarrow> bool" where
  "is_automatable t = (automatability_flag t = Some ''Automatable'')"

definition is_primary :: "task \<Rightarrow> bool" where
  "is_primary t =
     (case importance_classification t of None \<Rightarrow> False | Some s \<Rightarrow> py_lower s = ''primary'')"

definition all_tasks_of :: "job_row list \<Rightarrow> task list" where
  "all_tasks_of rs = concat (map Automatability_Analysis_Parsed rs)"

subsection \<open>\<^verbatim>\<open>/api/task_analysis\<close>\<close>

text \<open>
  \<^verbatim>\<open>extract_questions_fast\<close> (lines 303-321): the \<^verbatim>\<open>question\<close> values that are
  non-empty lists, their text items in order, each cleaned, counted. The handler
  calls it after its early return for an empty task list, so the second test of
  \<^verbatim>\<open>all_tasks\<close> at line 288 is never true and has no branch in the model.
\<close>

fun valid_questions :: "task list \<Rightarrow> question_item list list" where
  "valid_questions [] = []"
| "valid_questions (t # ts) =
     (case question t of
        Some (QList qs) \<Rightarrow> (if length qs > 0 then qs # valid_questions ts else valid_questions ts)
      | _ \<Rightarrow> valid_questions ts)"

fun text_items :: "question_item list \<Rightarrow> string list" where
  "text_items [] = []"
| "text_items (QStr s # qs) = s # text_items qs"
| "text_items (QOther # qs) = text_items qs"

definition clean_question :: "string \<Rightarrow> string" where
  "clean_question q = py_title (py_replace_char (CHR ''_'') (CHR '' '') q)"

definition cleaned_questions :: "task list \<Rightarrow> string list" where
  "cleaned_questions ts = map clean_question (concat (map text_items (valid_questions ts)))"

definition extract_questions_fast :: "task_frame \<Rightarrow> error + (string \<times> nat) list" where
  "extract_questions_fast df =
     (if ''question'' \<notin> set (task_columns df) then Inl (KeyError ''question'')
      else if length (valid_questions (task_rows df)) > 0
           then Inr (Counter (cleaned_questions (task_rows df)))
           else Inr [])"

definition reason_counts :: "(string \<times> nat) list \<Rightarrow> json" where
  "reason_counts entries =
     JArr (map (\<lambda>rc. JObj [(''reason'', JStr (fst rc)), (''count'', JInt (int (snd rc)))]) entries)"

definition classification_of :: "task \<Rightarrow> string \<Rightarrow> string" where
  "classification_of t fallback =
     py_lower (case importance_classification t of None \<Rightarrow> fallback | Some s \<Rightarrow> s)"

definition automation_by_type_of :: "task list \<Rightarrow> (string \<times> json) list" where
  "automation_by_type_of all_tasks =
     concat (map
       (\<lambda>task_type.
          let type_tasks = filter (\<lambda>t. classification_of t [] = task_type) all_tasks;
              automatable = length (filter is_automatable type_tasks);
              total = length type_tasks
          in if type_tasks = [] then []
             else [(task_type, JObj
                     [(''automatable'', JInt (int automatable)),
                      (''non_automatable'', JInt (int total - int automatable)),
                      (''total'', JInt (int total)),
                      (''automation_percentage'',
                         (if total > 0
                          then JRound1 (of_nat automatable / of_nat total * 100)
                          else JInt 0))])])
       [''primary'', ''secondary'', ''ancillary''])"

definition zero_task_analysis :: json where
  "zero_task_analysis =
     JObj [(''total_tasks'', JInt 0),
           (''automation_status'', JObj [(''automatable'', JInt 0), (''non_automatable'', JInt 0)]),
           (''task_type_distribution'',
              JObj [(''primary'', JInt 0), (''secondary'', JInt 0), (''ancillary'', JInt 0)]),
           (''automation_by_type'', JObj []),
           (''automation_drivers'', JArr []),
           (''automation_barriers'', JArr [])]"

definition get_task_analysis :: "dataframe \<Rightarrow> string option \<Rightarrow> string option \<Rightarrow> error + json" where
  "get_task_analysis job_data category level =
     (let filtered_data = filter_category job_data category level;
          all_tasks = all_tasks_of (rows filtered_data)
      in if all_tasks = [] then Inr zero_task_analysis
         else
           let automatable_count = int (length (filter is_automatable all_tasks));
               non_automatable_count = int (length all_tasks) - automatable_count;
               task_types = map (\<lambda>t. classification_of t ''Not specified'') all_tasks;
               type_counts = Counter task_types;
               primary_count = counter_get type_counts ''primary'';
               secondary_count = counter_get type_counts ''secondary'';
               ancillary_count = counter_get type_counts ''ancillary'';
               other_count =
                 sum_list (map snd
                   (filter (\<lambda>kv. fst kv \<notin> set [''primary'', ''secondary'', ''ancillary''])
                      type_counts));
               automation_by_type = automation_by_type_of all_tasks;
               tasks_df = DataFrame all_tasks
           in if ''automatability_flag'' \<notin> set (task_columns tasks_df)
              then Inl (KeyError ''automatability_flag'')
              else
                let automatable_df = select_rows is_automatable tasks_df;
                    non_automatable_df = select_rows (\<lambda>t. \<not> is_automatable t) tasks_df
                in (case extract_questions_fast automatable_df of
                      Inl e \<Rightarrow> Inl e
                    | Inr automation_drivers \<Rightarrow>
                        (case extract_questions_fast non_automatable_df of
                           Inl e \<Rightarrow> Inl e
                         | Inr automation_barriers \<Rightarrow>
                             Inr (JObj
                               [(''total_tasks'', JInt (int (length all_tasks))),
                                (''total_jobs'', JInt (int (length (rows filtered_data)))),
                                (''automation_status'',
                                   JObj [(''automatable'', JInt automatable_count),
                                         (''non_automatable'', JInt non_automatable_count)]),
                                (''task_type_distribution'',
                                   JObj [(''primary'', JInt (int primary_count)),
                                         (''secondary'', JInt (int secondary_count)),
                                         (''ancillary'', JInt (int ancillary_count)),
                                         (''other'', JInt (int other_count))]),
                                (''automation_by_type'', JObj automation_by_type),
                                (''automation_drivers'',
                                   reason_counts (most_common 10 automation_drivers)),
                                (''automation_barriers'',
                                   reason_counts (most_common 10 automation_barriers))]))))"

subsection \<open>\<^verbatim>\<open>/api/automation_matrix\<close>\<close>

text \<open>The two percentages of lines 180-192, before they are rounded for display.\<close>

definition overall_automation_pct :: "task list \<Rightarrow> rat" where
  "overall_automation_pct all_tasks =
     of_nat (length (filter is_automatable all_tasks)) / of_nat (length all_tasks) * 100"

definition primary_automation_pct :: "task list \<Rightarrow> rat" where
  "primary_automation_pct all_tasks =
     (let primary_tasks = filter is_primary all_tasks
      in if length primary_tasks = 0 then 0
         else of_nat (length (filter is_automatable primary_tasks))
                / of_nat (length primary_tasks) * 100)"

text \<open>Lines 194-208: quadrant and colour.\<close>

definition quadrant_color :: "rat \<Rightarrow> rat \<Rightarrow> string \<times> string" where
  "quadrant_color overall_pct primary_pct =
     (if overall_pct < 50 \<and> primary_pct \<ge> 50 then (''upper_left'', ''#8B5CF6'')
      else if overall_pct \<ge> 50 \<and> primary_pct \<ge> 50 then (''upper_right'', ''#EF4444'')
      else if overall_pct < 50 \<and> primary_pct < 50 then (''lower_left'', ''#10B981'')
      else (''lower_right'', ''#F59E0B''))"

text \<open>
  The body of the loop over the groups (lines 157-219) for one level-4 category
  and its rows: \<open>Inr None\<close> when the loop continues without a point.
\<close>

definition matrix_point :: "cell \<Rightarrow> job_row list \<Rightarrow> error + json option" where
  "matrix_point level_4_category group_data =
     (let all_tasks = all_tasks_of group_data
      in if all_tasks = [] then Inr None
         else
           let tasks_df = DataFrame all_tasks;
               total_tasks = length (task_rows tasks_df)
           in if total_tasks = 0 then Inr None
              else if ''automatability_flag'' \<notin> set (task_columns tasks_df)
              then Inl (KeyError ''automatability_flag'')
              else if ''importance_classification'' \<notin> set (task_columns tasks_df)
              then Inl (KeyError ''importance_classification'')
              else
                let primary_tasks_df = select_rows is_primary tasks_df;
                    quadrant = fst (quadrant_color (overall_automation_pct all_tasks)
                                      (primary_automation_pct all_tasks));
                    color = snd (quadrant_color (overall_automation_pct all_tasks)
                                   (primary_automation_pct all_tasks))
                in Inr (Some (JObj
                     [(''category'', cell_json level_4_category),
                      (''overall_automation_pct'',
                         JRound1 (overall_automation_pct all_tasks)),
                      (''primary_automation_pct'',
                         (if length (task_rows primary_tasks_df) = 0 then JInt 0
                          else JRound1 (primary_automation_pct all_tasks))),
                      (''total_tasks'', JInt (int total_tasks)),
                      (''primary_tasks'', JInt (int (length (task_rows primary_tasks_df)))),
                      (''total_jobs'', JInt (int (length group_data))),
                      (''quadrant'', JStr quadrant),
                      (''color'', JStr color)])))"

text \<open>
  \<^verbatim>\<open>groupby('level_4_name')\<close>: one group per value that is not NaN, in sorted
  order of the values (numbers before texts). A group is never empty, and
  \<^verbatim>\<open>dropna()\<close> on its column of lists removes nothing, so the test of line 160
  never fires.
\<close>

fun cell_numbers :: "cell list \<Rightarrow> rat list" where
  "cell_numbers [] = []"
| "cell_numbers (CNum x # vs) = x # cell_numbers vs"
| "cell_numbers (v # vs) = cell_numbers vs"

fun cell_texts :: "cell list \<Rightarrow> string list" where
  "cell_texts [] = []"
| "cell_texts (CStr s # vs) = s # cell_texts vs"
| "cell_texts (v # vs) = cell_texts vs"

definition group_keys :: "cell list \<Rightarrow> cell list" where
  "group_keys vs =
     map CNum (sort (remdups (cell_numbers vs))) @ map CStr (sort (remdups (cell_texts vs)))"

definition groupby :: "string \<Rightarrow> job_row list \<Rightarrow> (cell \<times> job_row list) list" where
  "groupby col rs =
     map (\<lambda>k. (k, filter (\<lambda>r. cells r col = k) rs)) (group_keys (map (\<lambda>r. cells r col) rs))"

fun matrix_loop :: "(cell \<times> job_row list) list \<Rightarrow> error + json list" where
  "matrix_loop [] = Inr []"
| "matrix_loop ((level_4_category, group_data) # groups) =
     (case matrix_point level_4_category group_data of
        Inl e \<Rightarrow> Inl e
      | Inr None \<Rightarrow> matrix_loop groups
      | Inr (Some point) \<Rightarrow>
          (case matrix_loop groups of Inl e \<Rightarrow> Inl e | Inr results \<Rightarrow> Inr (point # results)))"

definition get_automation_matrix :: "dataframe \<Rightarrow> string option \<Rightarrow> string option \<Rightarrow> error + json" where
  "get_automation_matrix job_data category level =
     (let filtered_data = filter_category job_data category level
      in if rows filtered_data = [] then Inr (JObj [(''matrix_data'', JArr [])])
         else if ''level_4_name'' \<notin> set (columns filtered_data)
         then Inl (KeyError ''level_4_name'')
         else (case matrix_loop (groupby ''level_4_name'' (rows filtered_data)) of
                 Inl e \<Rightarrow> Inl e
               | Inr results \<Rightarrow> Inr (JObj [(''matrix_data'', JArr results)])))"

section \<open>What the ranked lists are to satisfy\<close>

text \<open>
  The specification's words for the driver and barrier lists, as a predicate of
  its own: \<open>entries\<close> is a list of the \<open>n\<close> most frequent items of \<open>qs\<close>,
  each with the number of its occurrences, by falling count. Every item has at
  most one entry, when fewer than \<open>n\<close> items exist all are listed, and an item
  without an entry occurs no more often than any item listed.
\<close>

definition top_by_count :: "nat \<Rightarrow> string list \<Rightarrow> (string \<times> nat) list \<Rightarrow> bool" where
  "top_by_count n qs entries =
     (length entries = min n (length (remdups qs))
      \<and> distinct (map fst entries)
      \<and> list_all (\<lambda>e. fst e \<in> set qs \<and> snd e = count_list qs (fst e)) entries
      \<and> sorted_wrt (\<lambda>a b. snd a \<ge> snd b) entries
      \<and> list_all (\<lambda>q. q \<in> fst ` set entries \<or> list_all (\<lambda>e. count_list qs q \<le> snd e) entries) qs)"

text \<open>
  The specification's words for one side's entries, written without the
  functions of the model: of every task of the side the items of its question
  list that are text (no list, no items), each normalised by putting a space for
  every underscore and then writing every word, a run of letters, with a capital
  first letter and small letters after it. Letters are those of ASCII.
\<close>

definition spec_letter :: "char \<Rightarrow> bool" where
  "spec_letter c =
     ((65 \<le> (of_char c :: nat) \<and> (of_char c :: nat) \<le> 90)
      \<or> (97 \<le> (of_char c :: nat) \<and> (of_char c :: nat) \<le> 122))"

definition spec_capital :: "char \<Rightarrow> char" where
  "spec_capital c =
     (if 97 \<le> (of_char c :: nat) \<and> (of_char c :: nat) \<le> 122
      then char_of ((of_char c :: nat) - 32) else c)"

definition spec_small :: "char \<Rightarrow> char" where
  "spec_small c =
     (if 65 \<le> (of_char c :: nat) \<and> (of_char c :: nat) \<le> 90
      then char_of ((of_char c :: nat) + 32) else c)"

definition spec_title_case :: "string \<Rightarrow> string" where
  "spec_title_case s =
     map (\<lambda>bc. if spec_letter (snd bc)
                then (case fst bc of
                        None \<Rightarrow> spec_capital (snd bc)
                      | Some b \<Rightarrow> if spec_letter b then spec_small (snd bc)
                                  else spec_capital (snd bc))
                else snd bc)
       (zip (None # map Some s) s)"

definition spec_normalize :: "string \<Rightarrow> string" where
  "spec_normalize q = spec_title_case (map (\<lambda>c. if c = CHR ''_'' then CHR '' '' else c) q)"

definition spec_questions :: "task \<Rightarrow> string list" where
  "spec_questions t =
     (case question t of
        Some (QList items) \<Rightarrow>
          concat (map (\<lambda>i. case i of QStr s \<Rightarrow> [s] | QOther \<Rightarrow> []) items)
      | _ \<Rightarrow> [])"

definition spec_reasons :: "task list \<Rightarrow> string list" where
  "spec_reasons side = map spec_normalize (concat (map spec_questions side))"

definition ascii_text :: "string \<Rightarrow> bool" where
  "ascii_text s = list_all (\<lambda>c. (of_char c :: nat) < 128) s"

section \<open>Example data\<close>

text \<open>A spreadsheet row written as the list of its cells that are not empty.\<close>

definition raw_row :: "(string \<times> cell) list \<Rightarrow> string \<Rightarrow> cell" where
  "raw_row kvs c = (case map_of kvs c of None \<Rightarrow> CNaN | Some v \<Rightarrow> v)"

text \<open>
  Four rows, one of them without a readable score, and the frame that loading
  them gives. No row has a task field, so the decoder is never called.
\<close>

definition risk_source :: raw_table where
  "risk_source =
     \<lparr>raw_columns = [''auto_score'', ''manual_score'', ''level_4_name'', ''Automatability_Analysis''],
      raw_rows =
        [raw_row [(''auto_score'', CNum 10), (''manual_score'', CNum 90), (''level_4_name'', CStr ''Legal'')],
         raw_row [(''auto_score'', CNum 30), (''manual_score'', CNum 70), (''level_4_name'', CStr ''Legal'')],
         raw_row [(''auto_score'', CStr ''n/a''), (''manual_score'', CNum 50), (''level_4_name'', CStr ''Legal'')],
         raw_row [(''auto_score'', CNum 60), (''manual_score'', CNum 40), (''level_4_name'', CStr ''Sales'')]]\<rparr>"

definition risk_frame :: dataframe where
  "risk_frame =
     \<lparr>columns = [''auto_score'', ''manual_score'', ''level_4_name'', ''Automatability_Analysis'',
                 ''Automatability_Analysis_Parsed''],
      rows =
        [\<lparr>auto_score = Fin 10, manual_score = Fin 90,
          cells = raw_row [(''auto_score'', CNum 10), (''manual_score'', CNum 90), (''level_4_name'', CStr ''Legal'')],
          Automatability_Analysis_Parsed = []\<rparr>,
         \<lparr>auto_score = Fin 30, manual_score = Fin 70,
          cells = raw_row [(''auto_score'', CNum 30), (''manual_score'', CNum 70), (''level_4_name'', CStr ''Legal'')],
          Automatability_Analysis_Parsed = []\<rparr>,
         \<lparr>auto_score = Fin 60, manual_score = Fin 40,
          cells = raw_row [(''auto_score'', CNum 60), (''manual_score'', CNum 40), (''level_4_name'', CStr ''Sales'')],
          Automatability_Analysis_Parsed = []\<rparr>]\<rparr>"

text \<open>
  A sheet whose only row has no readable score: loading succeeds and leaves a
  frame without rows.
\<close>

definition empty_source :: raw_table where
  "empty_source =
     \<lparr>raw_columns = [''auto_score'', ''manual_score'', ''level_4_name'', ''Automatability_Analysis''],
      raw_rows =
        [raw_row [(''auto_score'', CStr ''n/a''), (''manual_score'', CNum 50), (''level_4_name'', CStr ''Legal'')]]\<rparr>"

definition empty_frame :: dataframe where
  "empty_frame =
     \<lparr>columns = [''auto_score'', ''manual_score'', ''level_4_name'', ''Automatability_Analysis'',
                 ''Automatability_Analysis_Parsed''],
      rows = []\<rparr>"

text \<open>
  Two rows with good scores. The task field of the first is an empty JSON list;
  that of the second opens a list and breaks off. The sample decoder knows the
  first text and rejects every other, as \<^verbatim>\<open>json.loads\<close> rejects the second.
\<close>

definition malformed_source :: raw_table where
  "malformed_source =
     \<lparr>raw_columns = [''auto_score'', ''manual_score'', ''level_4_name'', ''Automatability_Analysis''],
      raw_rows =
        [raw_row [(''auto_score'', CNum 10), (''manual_score'', CNum 90),
                  (''level_4_name'', CStr ''Legal''), (''Automatability_Analysis'', CStr ''[]'')],
         raw_row [(''auto_score'', CNum 30), (''manual_score'', CNum 70),
                  (''level_4_name'', CStr ''Legal''), (''Automatability_Analysis'', CStr '' [{'')]]\<rparr>"

definition sample_json_loads :: "string \<Rightarrow> task list option" where
  "sample_json_loads s = (if s = ''[]'' then Some [] else None)"

text \<open>
  The example of the specification for the ranking: three automatable tasks with
  the questions \<^verbatim>\<open>years_experience\<close>, \<^verbatim>\<open>years_experience\<close> and
  \<^verbatim>\<open>physical_dexterity\<close>, in one row.
\<close>

definition question_task :: "string \<Rightarrow> string \<Rightarrow> string list \<Rightarrow> task" where
  "question_task flag classification qs =
     \<lparr>automatability_flag = Some flag,
      importance_classification = Some classification,
      question = Some (QList (map QStr qs))\<rparr>"

definition drivers_frame :: dataframe where
  "drivers_frame =
     \<lparr>columns = [''auto_score'', ''manual_score'', ''level_4_name'', ''Automatability_Analysis'',
                 ''Automatability_Analysis_Parsed''],
      rows =
        [\<lparr>auto_score = Fin 40, manual_score = Fin 60,
          cells = raw_row [(''auto_score'', CNum 40), (''manual_score'', CNum 60), (''level_4_name'', CStr ''Legal'')],
          Automatability_Analysis_Parsed =
            [question_task ''Automatable'' ''Primary'' [''years_experience''],
             question_task ''Automatable'' ''Secondary'' [''years_experience''],
             question_task ''Automatable'' ''Primary'' [''physical_dexterity'']]\<rparr>]\<rparr>"

text \<open>
  Two frames of one row and one task each: in the first the task has no
  \<^verbatim>\<open>automatability_flag\<close> key, in the second it has no \<^verbatim>\<open>question\<close> key.
\<close>

definition unflagged_frame :: dataframe where
  "unflagged_frame =
     \<lparr>columns = [''auto_score'', ''manual_score'', ''level_4_name'', ''Automatability_Analysis'',
                 ''Automatability_Analysis_Parsed''],
      rows =
        [\<lparr>auto_score = Fin 40, manual_score = Fin 60,
          cells = raw_row [(''auto_score'', CNum 40), (''manual_score'', CNum 60), (''level_4_name'', CStr ''Legal'')],
          Automatability_Analysis_Parsed =
            [\<lparr>automatability_flag = None,
              importance_classification = Some ''primary'',
              question = Some (QList [QStr ''years_experience''])\<rparr>]\<rparr>]\<rparr>"

definition unquestioned_frame :: dataframe where
  "unquestioned_frame =
     \<lparr>columns = [''auto_score'', ''manual_score'', ''level_4_name'', ''Automatability_Analysis'',
                 ''Automatability_Analysis_Parsed''],
      rows =
        [\<lparr>auto_score = Fin 40, manual_score = Fin 60,
          cells = raw_row [(''auto_score'', CNum 40), (''manual_score'', CNum 60), (''level_4_name'', CStr ''Legal'')],
          Automatability_Analysis_Parsed =
            [\<lparr>automatability_flag = Some ''Automatable'',
              importance_classification = Some ''primary'',
              question = None\<rparr>]\<rparr>]\<rparr>"

text \<open>
  A frame for the matrix: the category \<^verbatim>\<open>Legal\<close> in two rows of one task each,
  one automatable and one not, both primary; \<^verbatim>\<open>Admin\<close> with one automatable task
  in four, one of its two primary tasks; \<^verbatim>\<open>Care\<close> with nothing automatable;
  \<^verbatim>\<open>Sales\<close> with an automatable secondary and another primary task; \<^verbatim>\<open>Idle\<close>
  without tasks.
\<close>

definition flagged_task :: "string \<Rightarrow> string \<Rightarrow> task" where
  "flagged_task flag classification =
     \<lparr>automatability_flag = Some flag,
      importance_classification = Some classification,
      question = None\<rparr>"

definition category_row :: "string \<Rightarrow> task list \<Rightarrow> job_row" where
  "category_row name ts =
     \<lparr>auto_score = Fin 40, manual_score = Fin 60,
      cells = raw_row [(''auto_score'', CNum 40), (''manual_score'', CNum 60), (''level_4_name'', CStr name)],
      Automatability_Analysis_Parsed = ts\<rparr>"

definition matrix_frame :: dataframe where
  "matrix_frame =
     \<lparr>columns = [''auto_score'', ''manual_score'', ''level_4_name'', ''Automatability_Analysis'',
                 ''Automatability_Analysis_Parsed''],
      rows =
        [category_row ''Legal'' [flagged_task ''Automatable'' ''Primary''],
         category_row ''Sales'' [flagged_task ''Automatable'' ''secondary'',
                                 flagged_task ''Not Automatable'' ''primary''],
         category_row ''Idle'' [],
         category_row ''Legal'' [flagged_task ''Not Automatable'' ''primary''],
         category_row ''Care'' [flagged_task ''Not Automatable'' ''primary'',
                                flagged_task ''Not Automatable'' ''secondary''],
         category_row ''Admin'' [flagged_task ''Automatable'' ''primary'',
                                 flagged_task ''Not Automatable'' ''PRIMARY'',
                                 flagged_task ''Not Automatable'' ''secondary'',
                                 flagged_task ''Not Automatable'' ''ancillary'']]\<rparr>"

definition matrix_entry :: "string \<Rightarrow> json \<Rightarrow> json \<Rightarrow> int \<Rightarrow> int \<Rightarrow> int \<Rightarrow> string \<Rightarrow> string \<Rightarrow> json" where
  "matrix_entry name overall primary n_tasks n_primary n_jobs quadrant color =
     JObj [(''category'', JStr name),
           (''overall_automation_pct'', overall),
           (''primary_automation_pct'', primary),
           (''total_tasks'', JInt n_tasks),
           (''primary_tasks'', JInt n_primary),
           (''total_jobs'', JInt n_jobs),
           (''quadrant'', JStr quadrant),
           (''color'', JStr color)]"

definition matrix_points :: "json list" where
  "matrix_points =
     [matrix_entry ''Admin'' (JRound1 25) (JRound1 50) 4 2 1 ''upper_left'' ''#8B5CF6'',
      matrix_entry ''Care'' (JRound1 0) (JRound1 0) 2 1 1 ''lower_left'' ''#10B981'',
      matrix_entry ''Legal'' (JRound1 50) (JRound1 50) 2 2 2 ''upper_right'' ''#EF4444'',
      matrix_entry ''Sales'' (JRound1 50) (JRound1 0) 2 1 1 ''lower_right'' ''#F59E0B'']"

text \<open>
  Two categories with three tasks each: questions in mixed case, a question list
  with an item that is no text, a question that is no list, tasks flagged
  \<^verbatim>\<open>Automatable\<close>, flagged otherwise (\<^verbatim>\<open>automatable\<close> in small letters too)
  and not flagged at all. The frame has no column \<^verbatim>\<open>level_2_name\<close>.
\<close>

definition ranking_frame :: dataframe where
  "ranking_frame =
     \<lparr>columns = [''auto_score'', ''manual_score'', ''level_4_name'', ''Automatability_Analysis'',
                 ''Automatability_Analysis_Parsed''],
      rows =
        [category_row ''Legal''
           [\<lparr>automatability_flag = Some ''Automatable'',
             importance_classification = Some ''Primary'',
             question = Some (QList [QStr ''years_experience'', QStr ''PHYSICAL_dexterity''])\<rparr>,
            \<lparr>automatability_flag = Some ''Not Automatable'',
             importance_classification = Some ''secondary'',
             question = Some (QList [QStr ''years_EXPERIENCE'', QOther, QStr ''team_work''])\<rparr>,
            \<lparr>automatability_flag = None,
             importance_classification = None,
             question = Some (QList [QStr ''team_work''])\<rparr>],
         category_row ''Sales''
           [\<lparr>automatability_flag = Some ''Automatable'',
             importance_classification = Some ''primary'',
             question = Some QNotList\<rparr>,
            \<lparr>automatability_flag = Some ''Automatable'',
             importance_classification = Some ''Ancillary'',
             question = Some (QList [QStr ''years_experience''])\<rparr>,
            \<lparr>automatability_flag = Some ''automatable'',
             importance_classification = Some ''support'',
             question = Some (QList [QStr ''years_experience''])\<rparr>]]\<rparr>"



section \<open>Loading keeps only rows with both scores\<close>

lemma apply_rows_all:
  "apply_rows f xs = Inr ys \<Longrightarrow> (\<And>x y. x \<in> set xs \<Longrightarrow> f x = Inr y \<Longrightarrow> P y)
     \<Longrightarrow> list_all P ys"
proof (induction xs arbitrary: ys)
  case Nil
  then show ?case by simp
next
  case (Cons x xs)
  from Cons.prems(1) obtain y ys' where fx: "f x = Inr y" and rest: "apply_rows f xs = Inr ys'"
    and ys: "ys = y # ys'"
    by (auto split: sum.splits)
  have "P y" using Cons.prems(2) [of x y] fx by simp
  moreover have "list_all P ys'" using Cons.IH [OF rest] Cons.prems(2) by auto
  ultimately show ?case using ys by simp
qed

lemma load_job_data_scores:
  assumes "load_job_data json_loads parse_number source = Inr job_data"
  shows "list_all (\<lambda>r. auto_score r \<noteq> NaN \<and> manual_score r \<noteq> NaN) (rows job_data)"
proof -
  from assms obtain df where src: "source = Some df"
    by (auto simp: load_job_data_def split: option.splits)
  let ?keep = "\<lambda>r. to_numeric parse_number (r ''auto_score'') \<noteq> NaN
                    \<and> to_numeric parse_number (r ''manual_score'') \<noteq> NaN"
  let ?f = "\<lambda>r. case parse_analysis json_loads (r ''Automatability_Analysis'') of
                   Inl e \<Rightarrow> Inl e
                 | Inr ts \<Rightarrow>
                     Inr \<lparr>auto_score = to_numeric parse_number (r ''auto_score''),
                          manual_score = to_numeric parse_number (r ''manual_score''),
                          cells = r,
                          Automatability_Analysis_Parsed = ts\<rparr>"
  from assms src have ar: "apply_rows ?f (filter ?keep (raw_rows df)) = Inr (rows job_data)"
    by (auto simp: load_job_data_def Let_def split: if_splits sum.splits)
  show ?thesis
  proof (rule apply_rows_all [OF ar])
    fix x y
    assume "x \<in> set (filter ?keep (raw_rows df))" and "?f x = Inr y"
    then show "auto_score y \<noteq> NaN \<and> manual_score y \<noteq> NaN"
      by (auto split: sum.splits)
  qed
qed

section \<open>The taxonomy filter\<close>

lemma filter_category_rows:
  "set (rows (filter_category job_data category level)) \<subseteq> set (rows job_data)"
  by (auto simp: filter_category_def split: option.splits)

text \<open>
  C6. Filtering with no category is the identity, at every level: the frame comes
  back as it was, rows in the same order, and \<^verbatim>\<open>/api/jobs\<close> lists every row of
  the frame in that order.
\<close>

theorem filter_absent_category_identity:
  "filter_category job_data None level = job_data
   \<and> rows (filter_category job_data None level) = rows job_data
   \<and> get_jobs job_data None level = Inr (JArr (map (job_dict (columns job_data)) (rows job_data)))"
  by (simp add: filter_category_def get_jobs_def)

text \<open>
  C9. An empty category is treated as no category: the filter and each of the
  four handlers that call it give the same result for \<^verbatim>\<open>category=''\<close> as for a
  request without the argument, which is the result over the whole frame.
\<close>

theorem empty_category_as_absent:
  "filter_category job_data (Some []) level = job_data
   \<and> get_jobs job_data (Some []) level = get_jobs job_data None level
   \<and> get_automation_matrix job_data (Some []) level = get_automation_matrix job_data None level
   \<and> get_task_analysis job_data (Some []) level = get_task_analysis job_data None level
   \<and> get_risk_distribution job_data (Some []) level = get_risk_distribution job_data None level"
  by (simp add: filter_category_def get_jobs_def get_automation_matrix_def get_task_analysis_def
      get_risk_distribution_def)

section \<open>Risk buckets\<close>

lemma risk_partition:
  "list_all (\<lambda>r. auto_score r \<noteq> NaN) rs \<Longrightarrow>
   mset (filter (\<lambda>r. float_lt (auto_score r) 30) rs)
   + mset (filter (\<lambda>r. float_ge (auto_score r) 30 \<and> float_lt (auto_score r) 60) rs)
   + mset (filter (\<lambda>r. float_ge (auto_score r) 60) rs) = mset rs"
proof (induction rs)
  case Nil
  then show ?case by simp
next
  case (Cons r rs)
  then obtain x where "auto_score r = Fin x" by (cases "auto_score r") auto
  with Cons show ?case by auto
qed

text \<open>
  C5. On a loaded frame, whatever the filter, the three buckets reported by
  \<^verbatim>\<open>/api/risk_distribution\<close> are the sizes of three lists of rows that together
  hold every filtered row exactly once, so the three counts add up to the total;
  a row with score 30 lies in the medium bucket and a row with score 60 in the
  high bucket, and in no other.
\<close>

theorem risk_buckets_partition:
  assumes "load_job_data json_loads parse_number source = Inr job_data"
  shows "\<exists>low medium high.
           get_risk_distribution job_data category level =
             Inr (JObj [(''low_risk'', JInt (int (length low))),
                        (''medium_risk'', JInt (int (length medium))),
                        (''high_risk'', JInt (int (length high))),
                        (''total'', JInt (int (length low + length medium + length high)))])
           \<and> mset low + mset medium + mset high
               = mset (rows (filter_category job_data category level))
           \<and> length low + length medium + length high
               = length (rows (filter_category job_data category level))
           \<and> list_all (\<lambda>r. (auto_score r = Fin 30 \<longrightarrow> r \<in> set medium \<and> r \<notin> set low \<and> r \<notin> set high)
                          \<and> (auto_score r = Fin 60 \<longrightarrow> r \<in> set high \<and> r \<notin> set low \<and> r \<notin> set medium))
               (rows (filter_category job_data category level))"
proof -
  let ?rs = "rows (filter_category job_data category level)"
  let ?low = "filter (\<lambda>r. float_lt (auto_score r) 30) ?rs"
  let ?medium = "filter (\<lambda>r. float_ge (auto_score r) 30 \<and> float_lt (auto_score r) 60) ?rs"
  let ?high = "filter (\<lambda>r. float_ge (auto_score r) 60) ?rs"
  have "list_all (\<lambda>r. auto_score r \<noteq> NaN \<and> manual_score r \<noteq> NaN) (rows job_data)"
    by (rule load_job_data_scores [OF assms])
  then have "list_all (\<lambda>r. auto_score r \<noteq> NaN) ?rs"
    using filter_category_rows [of job_data category level]
    by (auto simp: list_all_iff)
  then have part: "mset ?low + mset ?medium + mset ?high = mset ?rs"
    by (rule risk_partition)
  have "size (mset ?low + mset ?medium + mset ?high) = size (mset ?rs)"
    by (simp only: part)
  then have len: "length ?low + length ?medium + length ?high = length ?rs"
    by (simp only: size_union size_mset)
  have res: "get_risk_distribution job_data category level =
             Inr (JObj [(''low_risk'', JInt (int (length ?low))),
                        (''medium_risk'', JInt (int (length ?medium))),
                        (''high_risk'', JInt (int (length ?high))),
                        (''total'', JInt (int (length ?low + length ?medium + length ?high)))])"
    unfolding get_risk_distribution_def Let_def len by simp
  have bounds: "list_all (\<lambda>r. (auto_score r = Fin 30 \<longrightarrow> r \<in> set ?medium \<and> r \<notin> set ?low \<and> r \<notin> set ?high)
                          \<and> (auto_score r = Fin 60 \<longrightarrow> r \<in> set ?high \<and> r \<notin> set ?low \<and> r \<notin> set ?medium)) ?rs"
    by (auto simp: list_all_iff)
  from res part len bounds show ?thesis by blast
qed

theorem risk_buckets_partition_witness:
  "load_job_data (\<lambda>s. None) (\<lambda>s. None) (Some risk_source) = Inr risk_frame
   \<and> (\<exists>low medium high.
        get_risk_distribution risk_frame None None =
          Inr (JObj [(''low_risk'', JInt (int (length low))),
                     (''medium_risk'', JInt (int (length medium))),
                     (''high_risk'', JInt (int (length high))),
                     (''total'', JInt (int (length low + length medium + length high)))])
        \<and> mset low + mset medium + mset high = mset (rows (filter_category risk_frame None None))
        \<and> length low + length medium + length high
            = length (rows (filter_category risk_frame None None))
        \<and> list_all (\<lambda>r. (auto_score r = Fin 30 \<longrightarrow> r \<in> set medium \<and> r \<notin> set low \<and> r \<notin> set high)
                       \<and> (auto_score r = Fin 60 \<longrightarrow> r \<in> set high \<and> r \<notin> set low \<and> r \<notin> set medium))
            (rows (filter_category risk_frame None None)))
   \<and> get_risk_distribution risk_frame None None =
       Inr (JObj [(''low_risk'', JInt 1), (''medium_risk'', JInt 1), (''high_risk'', JInt 1),
                  (''total'', JInt 3)])"
proof -
  have loaded: "load_job_data (\<lambda>s. None) (\<lambda>s. None) (Some risk_source) = Inr risk_frame"
    by (simp add: load_job_data_def risk_source_def risk_frame_def raw_row_def parse_analysis_def
        parsed_column_def)
  have counts: "get_risk_distribution risk_frame None None =
       Inr (JObj [(''low_risk'', JInt 1), (''medium_risk'', JInt 1), (''high_risk'', JInt 1),
                  (''total'', JInt 3)])"
    by (simp add: get_risk_distribution_def filter_category_def risk_frame_def)
  from loaded risk_buckets_partition [OF loaded, of None None] counts show ?thesis by blast
qed

section \<open>A level that the frame does not have\<close>









section \<open>A task field that does not decode\<close>

lemma apply_rows_Inl:
  "x \<in> set xs \<Longrightarrow> f x = Inl e \<Longrightarrow> (\<And>x' e'. x' \<in> set xs \<Longrightarrow> f x' = Inl e' \<Longrightarrow> e' = e)
     \<Longrightarrow> apply_rows f xs = Inl e"
proof (induction xs)
  case Nil
  then show ?case by simp
next
  case (Cons a xs)
  show ?case
  proof (cases "f a")
    case (Inl e')
    then have "e' = e" using Cons.prems(3) [of a e'] by simp
    with Inl show ?thesis by simp
  next
    case (Inr y)
    then have mem: "x \<in> set xs" using Cons.prems(1,2) by auto
    have "apply_rows f xs = Inl e"
    proof (rule Cons.IH [OF mem Cons.prems(2)])
      fix x' e'
      assume "x' \<in> set xs" and "f x' = Inl e'"
      then show "e' = e" using Cons.prems(3) [of x' e'] by simp
    qed
    with Inr show ?thesis by simp
  qed
qed

text \<open>
  C3 does not hold of the code. A row that survives the score filter and whose
  task field, stripped, opens a list but is rejected by the decoder makes
  \<^verbatim>\<open>load_job_data\<close> fail as a whole: the exception leaves the lambda of line 20,
  is caught at line 25, and the global stays unset, so that a handler called next
  answers \<open>NoDataAvailable\<close>. No row gets an empty task list in its place.
\<close>

theorem malformed_task_field_fails_load:
  assumes "''auto_score'' \<in> set (raw_columns df)"
    and "''manual_score'' \<in> set (raw_columns df)"
    and "''Automatability_Analysis'' \<in> set (raw_columns df)"
    and "r \<in> set (raw_rows df)"
    and "to_numeric parse_number (r ''auto_score'') \<noteq> NaN"
    and "to_numeric parse_number (r ''manual_score'') \<noteq> NaN"
    and "r ''Automatability_Analysis'' = CStr s"
    and "py_startswith (py_strip s) ''[''"
    and "json_loads s = None"
  shows "load_job_data json_loads parse_number (Some df) = Inl JSONDecodeError
         \<and> with_job_data json_loads parse_number (Some df) None handler = Inl NoDataAvailable"
proof -
  let ?keep = "\<lambda>r. to_numeric parse_number (r ''auto_score'') \<noteq> NaN
                    \<and> to_numeric parse_number (r ''manual_score'') \<noteq> NaN"
  let ?f = "\<lambda>r. case parse_analysis json_loads (r ''Automatability_Analysis'') of
                   Inl e \<Rightarrow> Inl e
                 | Inr ts \<Rightarrow>
                     Inr \<lparr>auto_score = to_numeric parse_number (r ''auto_score''),
                          manual_score = to_numeric parse_number (r ''manual_score''),
                          cells = r,
                          Automatability_Analysis_Parsed = ts\<rparr>"
  have kept: "r \<in> set (filter ?keep (raw_rows df))"
    using assms(4,5,6) by simp
  have fails: "?f r = Inl JSONDecodeError"
    using assms(7,8,9) by (simp add: parse_analysis_def)
  have only: "e' = JSONDecodeError" if "?f x' = Inl e'" for x' e'
    using that by (auto simp: parse_analysis_def split: sum.splits cell.splits if_splits option.splits)
  have "apply_rows ?f (filter ?keep (raw_rows df)) = Inl JSONDecodeError"
  proof (rule apply_rows_Inl [of r "filter ?keep (raw_rows df)" ?f JSONDecodeError, OF kept fails])
    fix x' e'
    assume "?f x' = Inl e'"
    then show "e' = JSONDecodeError" by (rule only)
  qed
  then have "load_job_data json_loads parse_number (Some df) = Inl JSONDecodeError"
    using assms(1,2,3) by (simp add: load_job_data_def Let_def)
  then show ?thesis by (simp add: with_job_data_def)
qed

theorem malformed_task_field_fails_load_witness:
  "sample_json_loads '' [{'' = None
   \<and> py_startswith (py_strip '' [{'') ''[''
   \<and> load_job_data sample_json_loads (\<lambda>s. None) (Some malformed_source) = Inl JSONDecodeError
   \<and> with_job_data sample_json_loads (\<lambda>s. None) (Some malformed_source) None get_stats
       = Inl NoDataAvailable"
proof -
  let ?r = "raw_row [(''auto_score'', CNum 30), (''manual_score'', CNum 70),
                     (''level_4_name'', CStr ''Legal''), (''Automatability_Analysis'', CStr '' [{'')]"
  have a: "sample_json_loads '' [{'' = None" by (simp add: sample_json_loads_def)
  have b: "py_startswith (py_strip '' [{'') ''[''"
    by (simp add: py_startswith_def py_strip_def py_is_space_def py_is_space2_def
        py_is_space3_def)
  have c: "?r \<in> set (raw_rows malformed_source)" by (simp add: malformed_source_def)
  from a b
    malformed_task_field_fails_load [of malformed_source ?r "\<lambda>s. None" "'' [{''" sample_json_loads get_stats]
  show ?thesis
    by (simp add: malformed_source_def raw_row_def)
qed

section \<open>Task analysis without tasks\<close>

text \<open>
  C4 does not hold of the code. When the filtered rows hold no task, the handler
  returns the fixed body of lines 247-254. Its \<^verbatim>\<open>task_type_distribution\<close> has the
  three keys \<^verbatim>\<open>primary\<close>, \<^verbatim>\<open>secondary\<close> and \<^verbatim>\<open>ancillary\<close>, all 0, and no key
  \<^verbatim>\<open>other\<close>; the body has no key \<^verbatim>\<open>total_jobs\<close> either. Both keys are present
  in the body of lines 338-354.
\<close>

theorem empty_task_analysis_shape:
  assumes "all_tasks_of (rows (filter_category job_data category level)) = []"
  shows "get_task_analysis job_data category level = Inr zero_task_analysis
         \<and> jkeys zero_task_analysis =
             [''total_tasks'', ''automation_status'', ''task_type_distribution'',
              ''automation_by_type'', ''automation_drivers'', ''automation_barriers'']
         \<and> jget zero_task_analysis ''task_type_distribution'' =
             Some (JObj [(''primary'', JInt 0), (''secondary'', JInt 0), (''ancillary'', JInt 0)])
         \<and> jget (JObj [(''primary'', JInt 0), (''secondary'', JInt 0), (''ancillary'', JInt 0)]) ''other''
             = None
         \<and> jget zero_task_analysis ''total_jobs'' = None"
  using assms by (simp add: get_task_analysis_def zero_task_analysis_def)

theorem empty_task_analysis_shape_witness:
  "all_tasks_of (rows (filter_category risk_frame None None)) = []
   \<and> get_task_analysis risk_frame None None = Inr zero_task_analysis
   \<and> jget zero_task_analysis ''task_type_distribution'' =
       Some (JObj [(''primary'', JInt 0), (''secondary'', JInt 0), (''ancillary'', JInt 0)])
   \<and> jget zero_task_analysis ''total_jobs'' = None"
proof -
  have e: "all_tasks_of (rows (filter_category risk_frame None None)) = []"
    by (simp add: all_tasks_of_def filter_category_def risk_frame_def)
  from e empty_task_analysis_shape [OF e] show ?thesis by simp
qed

section \<open>Statistics of a frame without rows\<close>

text \<open>
  C8 does not hold of the code. On a frame without rows (one that has the column
  \<^verbatim>\<open>level_4_name\<close>, which the handler reads) \<^verbatim>\<open>/api/stats\<close> does not fail, and
  it reports both averages as NaN: neither 0 nor null.
\<close>

theorem empty_stats_average_is_nan:
  assumes "rows job_data = []" and "''level_4_name'' \<in> set (columns job_data)"
  shows "get_stats job_data =
           Inr (JObj [(''total_jobs'', JInt 0), (''unique_level_4_categories'', JInt 0),
                      (''sector_count'', JInt 0), (''avg_auto_score'', JNaN),
                      (''avg_manual_score'', JNaN)])"
  using assms by (simp add: get_stats_def nunique_def series_mean_def)

theorem empty_stats_average_is_nan_witness:
  "load_job_data (\<lambda>s. None) (\<lambda>s. None) (Some empty_source) = Inr empty_frame
   \<and> rows empty_frame = [] \<and> ''level_4_name'' \<in> set (columns empty_frame)
   \<and> get_stats empty_frame =
       Inr (JObj [(''total_jobs'', JInt 0), (''unique_level_4_categories'', JInt 0),
                  (''sector_count'', JInt 0), (''avg_auto_score'', JNaN),
                  (''avg_manual_score'', JNaN)])"
proof -
  have loaded: "load_job_data (\<lambda>s. None) (\<lambda>s. None) (Some empty_source) = Inr empty_frame"
    by (simp add: load_job_data_def empty_source_def empty_frame_def raw_row_def parsed_column_def)
  have r: "rows empty_frame = []" and c: "''level_4_name'' \<in> set (columns empty_frame)"
    by (simp_all add: empty_frame_def)
  from loaded r c empty_stats_average_is_nan [OF r c] show ?thesis by simp
qed

section \<open>Counters and their most common entries\<close>

lemma counter_add_lookup:
  "map_of (counter_add x c) k = (if k = x then Some (Suc (counter_get c x)) else map_of c k)"
  by (induction c) (auto simp: counter_get_def)

lemma counter_add_key_list:
  "set (map fst (counter_add x c)) = insert x (set (map fst c))"
proof (induction x c rule: counter_add.induct)
  case (1 x)
  show ?case by simp
next
  case (2 x k n kvs)
  show ?case
  proof (cases "k = x")
    case True
    then show ?thesis by auto
  next
    case False
    with 2 have "set (map fst (counter_add x kvs)) = insert x (set (map fst kvs))" by simp
    with False show ?thesis by (simp add: insert_commute)
  qed
qed

lemma counter_add_keys: "fst ` set (counter_add x c) = insert x (fst ` set c)"
  using counter_add_key_list [of x c] by simp

lemma counter_add_distinct: "distinct (map fst c) \<Longrightarrow> distinct (map fst (counter_add x c))"
proof (induction c)
  case Nil
  then show ?case by simp
next
  case (Cons kv c)
  obtain k n where kv: "kv = (k, n)" by (cases kv)
  show ?case
  proof (cases "k = x")
    case True
    with Cons.prems kv show ?thesis by simp
  next
    case False
    have "k \<notin> fst ` set (counter_add x c)"
      using Cons.prems kv False by (simp add: counter_add_keys)
    with Cons kv False show ?thesis by simp
  qed
qed

lemma counter_add_sum: "sum_list (map snd (counter_add x c)) = Suc (sum_list (map snd c))"
  by (induction c) auto

lemma counter_fold_lookup:
  "map_of (foldl (\<lambda>c x. counter_add x c) acc xs) k =
     (if k \<in> set xs \<or> map_of acc k \<noteq> None then Some (counter_get acc k + count_list xs k)
      else None)"
proof (induction xs arbitrary: acc)
  case Nil
  then show ?case by (auto simp: counter_get_def)
next
  case (Cons x xs)
  show ?case
    by (simp add: Cons.IH counter_add_lookup counter_get_def)
qed

lemma counter_fold_distinct:
  "distinct (map fst acc) \<Longrightarrow> distinct (map fst (foldl (\<lambda>c x. counter_add x c) acc xs))"
  by (induction xs arbitrary: acc) (simp_all add: counter_add_distinct)

lemma counter_fold_keys:
  "fst ` set (foldl (\<lambda>c x. counter_add x c) acc xs) = fst ` set acc \<union> set xs"
  by (induction xs arbitrary: acc) (simp_all add: counter_add_keys)

lemma counter_fold_sum:
  "sum_list (map snd (foldl (\<lambda>c x. counter_add x c) acc xs)) = sum_list (map snd acc) + length xs"
  by (induction xs arbitrary: acc) (simp_all add: counter_add_sum)

lemma Counter_lookup:
  "map_of (Counter xs) k = (if k \<in> set xs then Some (count_list xs k) else None)"
  by (simp add: Counter_def counter_fold_lookup counter_get_def)

lemma Counter_distinct: "distinct (map fst (Counter xs))"
  by (simp add: Counter_def counter_fold_distinct)

lemma Counter_keys: "fst ` set (Counter xs) = set xs"
  by (simp add: Counter_def counter_fold_keys)

lemma Counter_sum: "sum_list (map snd (Counter xs)) = length xs"
  by (simp add: Counter_def counter_fold_sum)

lemma Counter_entry:
  assumes "(k, n) \<in> set (Counter xs)"
  shows "k \<in> set xs \<and> n = count_list xs k"
proof -
  from assms have "map_of (Counter xs) k = Some n"
    using Counter_distinct [of xs] by simp
  then show ?thesis by (simp add: Counter_lookup split: if_splits)
qed

lemma Counter_length: "length (Counter xs) = length (remdups xs)"
proof -
  have "length (Counter xs) = length (map fst (Counter xs))" by simp
  also have "\<dots> = card (set (map fst (Counter xs)))"
    using Counter_distinct [of xs] by (simp only: distinct_card)
  also have "\<dots> = card (set xs)" by (simp add: Counter_keys)
  also have "\<dots> = length (remdups xs)" by (simp add: length_remdups_card_conv)
  finally show ?thesis .
qed

lemma most_common_top: "top_by_count n qs (most_common n (Counter qs))"
proof -
  let ?key = "\<lambda>kv :: string \<times> nat. - int (snd kv)"
  let ?s = "sort_key ?key (Counter qs)"
  let ?e = "take n ?s"
  have len: "length ?e = min n (length (remdups qs))"
    by (simp add: Counter_length min.commute)
  have "mset (map fst ?s) = mset (map fst (Counter qs))"
    by simp
  then have "distinct (map fst ?s)"
    using Counter_distinct [of qs] by (metis mset_eq_imp_distinct_iff)
  then have dist: "distinct (map fst ?e)"
    by (simp add: take_map [symmetric])
  have sub: "set ?e \<subseteq> set (Counter qs)"
    using set_take_subset [of n ?s] by simp
  have ent: "list_all (\<lambda>e. fst e \<in> set qs \<and> snd e = count_list qs (fst e)) ?e"
    unfolding list_all_iff
  proof
    fix e assume "e \<in> set ?e"
    with sub have "(fst e, snd e) \<in> set (Counter qs)" by auto
    then show "fst e \<in> set qs \<and> snd e = count_list qs (fst e)" by (rule Counter_entry)
  qed
  have "sorted (map ?key ?s)" by (rule sorted_sort_key)
  then have srt: "sorted_wrt (\<lambda>a b. ?key a \<le> ?key b) ?s"
    by (simp add: sorted_map)
  then have srt_s: "sorted_wrt (\<lambda>a b. snd a \<ge> snd b) ?s" by simp
  then have sorted_e: "sorted_wrt (\<lambda>a b. snd a \<ge> snd b) ?e"
    by (rule sorted_wrt_take)
  have split: "sorted_wrt (\<lambda>a b. snd a \<ge> snd b) (?e @ drop n ?s)"
    using srt_s by simp
  have top: "list_all (\<lambda>q. q \<in> fst ` set ?e \<or> list_all (\<lambda>e. count_list qs q \<le> snd e) ?e) qs"
    unfolding list_all_iff
  proof
    fix q assume "q \<in> set qs"
    then have "map_of (Counter qs) q = Some (count_list qs q)" by (simp add: Counter_lookup)
    then have "(q, count_list qs q) \<in> set (Counter qs)" by (rule map_of_SomeD)
    moreover have "set ?s = set ?e \<union> set (drop n ?s)"
      by (metis append_take_drop_id set_append)
    ultimately consider "(q, count_list qs q) \<in> set ?e" | "(q, count_list qs q) \<in> set (drop n ?s)"
      by auto
    then show "q \<in> fst ` set ?e \<or> (\<forall>e\<in>set ?e. count_list qs q \<le> snd e)"
    proof cases
      case 1
      then show ?thesis by force
    next
      case 2
      have "\<forall>e\<in>set ?e. snd e \<ge> snd (q, count_list qs q)"
        using split 2 unfolding sorted_wrt_append by blast
      then show ?thesis by simp
    qed
  qed
  from len dist ent sorted_e top show ?thesis
    by (simp add: top_by_count_def most_common_def)
qed

section \<open>Task analysis\<close>

lemma cleaned_questions_no_valid:
  "valid_questions ts = [] \<Longrightarrow> cleaned_questions ts = []"
  by (simp add: cleaned_questions_def)

lemma extract_questions_fast_eq:
  "extract_questions_fast df =
     (if ''question'' \<notin> set (task_columns df) then Inl (KeyError ''question'')
      else Inr (Counter (cleaned_questions (task_rows df))))"
  by (simp add: extract_questions_fast_def cleaned_questions_no_valid Counter_def)

lemma DataFrame_flag_column:
  "''automatability_flag'' \<in> set (task_columns (DataFrame ts))
     \<longleftrightarrow> list_ex (\<lambda>t. automatability_flag t \<noteq> None) ts"
  by (simp add: DataFrame_def task_has_key_def)

lemma DataFrame_importance_column:
  "''importance_classification'' \<in> set (task_columns (DataFrame ts))
     \<longleftrightarrow> list_ex (\<lambda>t. importance_classification t \<noteq> None) ts"
  by (simp add: DataFrame_def task_has_key_def)

lemma DataFrame_question_column:
  "''question'' \<in> set (task_columns (DataFrame ts))
     \<longleftrightarrow> list_ex (\<lambda>t. question t \<noteq> None) ts"
  by (simp add: DataFrame_def task_has_key_def)

lemma DataFrame_rows: "task_rows (DataFrame ts) = ts"
  by (simp add: DataFrame_def)

lemma select_rows_simps:
  "task_columns (select_rows keep df) = task_columns df"
  "task_rows (select_rows keep df) = filter keep (task_rows df)"
  by (simp_all add: select_rows_def)

lemma get_task_analysis_body:
  assumes "list_ex (\<lambda>t. automatability_flag t \<noteq> None) all_tasks"
    and "list_ex (\<lambda>t. question t \<noteq> None) all_tasks"
    and "all_tasks = all_tasks_of (rows (filter_category job_data category level))"
  shows "get_task_analysis job_data category level =
     Inr (JObj
       [(''total_tasks'', JInt (int (length all_tasks))),
        (''total_jobs'', JInt (int (length (rows (filter_category job_data category level))))),
        (''automation_status'',
           JObj [(''automatable'', JInt (int (length (filter is_automatable all_tasks)))),
                 (''non_automatable'',
                    JInt (int (length all_tasks) - int (length (filter is_automatable all_tasks))))]),
        (''task_type_distribution'',
           JObj [(''primary'',
                    JInt (int (counter_get
                       (Counter (map (\<lambda>t. classification_of t ''Not specified'') all_tasks)) ''primary''))),
                 (''secondary'',
                    JInt (int (counter_get
                       (Counter (map (\<lambda>t. classification_of t ''Not specified'') all_tasks)) ''secondary''))),
                 (''ancillary'',
                    JInt (int (counter_get
                       (Counter (map (\<lambda>t. classification_of t ''Not specified'') all_tasks)) ''ancillary''))),
                 (''other'',
                    JInt (int (sum_list (map snd
                       (filter (\<lambda>kv. fst kv \<notin> set [''primary'', ''secondary'', ''ancillary''])
                          (Counter (map (\<lambda>t. classification_of t ''Not specified'') all_tasks)))))))]),
        (''automation_by_type'', JObj (automation_by_type_of all_tasks)),
        (''automation_drivers'',
           reason_counts (most_common 10
             (Counter (cleaned_questions (filter is_automatable all_tasks))))),
        (''automation_barriers'',
           reason_counts (most_common 10
             (Counter (cleaned_questions (filter (\<lambda>t. \<not> is_automatable t) all_tasks)))))])"
proof -
  from assms(1) have ne: "all_tasks \<noteq> []" by auto
  have flag: "''automatability_flag'' \<in> set (task_columns (DataFrame all_tasks))"
    using assms(1) by (simp only: DataFrame_flag_column)
  have quest: "''question'' \<in> set (task_columns (DataFrame all_tasks))"
    using assms(2) by (simp only: DataFrame_question_column)
  have drivers: "extract_questions_fast (select_rows is_automatable (DataFrame all_tasks)) =
      Inr (Counter (cleaned_questions (filter is_automatable all_tasks)))"
    using quest by (simp add: extract_questions_fast_eq select_rows_simps DataFrame_rows)
  have barriers: "extract_questions_fast (select_rows (\<lambda>t. \<not> is_automatable t) (DataFrame all_tasks)) =
      Inr (Counter (cleaned_questions (filter (\<lambda>t. \<not> is_automatable t) all_tasks)))"
    using quest by (simp add: extract_questions_fast_eq select_rows_simps DataFrame_rows)
  show ?thesis
    unfolding get_task_analysis_def Let_def assms(3) [symmetric]
    using ne flag drivers barriers by simp
qed

lemma lower_char_range: "lower_char c \<in> set py_lower_letters \<or> lower_char c = c"
proof (cases "map_of (zip py_upper_letters py_lower_letters) c")
  case None
  then show ?thesis by (simp add: lower_char_def)
next
  case (Some l)
  then have "(c, l) \<in> set (zip py_upper_letters py_lower_letters)" by (rule map_of_SomeD)
  then have "l \<in> set py_lower_letters" by (rule set_zip_rightD)
  with Some show ?thesis by (simp add: lower_char_def)
qed

lemma upper_char_range: "upper_char c \<in> set py_upper_letters \<or> upper_char c = c"
proof (cases "map_of (zip py_lower_letters py_upper_letters) c")
  case None
  then show ?thesis by (simp add: upper_char_def)
next
  case (Some u)
  then have "(c, u) \<in> set (zip py_lower_letters py_upper_letters)" by (rule map_of_SomeD)
  then have "u \<in> set py_upper_letters" by (rule set_zip_rightD)
  with Some show ?thesis by (simp add: upper_char_def)
qed

lemma underscore_no_letter:
  "CHR ''_'' \<notin> set py_lower_letters" "CHR ''_'' \<notin> set py_upper_letters"
  by (simp_all add: py_lower_letters_def py_upper_letters_def)

lemma title_from_length: "length (title_from b s) = length s"
  by (induction s arbitrary: b) simp_all

lemma title_from_no_underscore:
  "CHR ''_'' \<notin> set s \<Longrightarrow> CHR ''_'' \<notin> set (title_from b s)"
proof (induction s arbitrary: b)
  case Nil
  then show ?case by simp
next
  case (Cons c s)
  from Cons.prems have c: "c \<noteq> CHR ''_''" and s: "CHR ''_'' \<notin> set s" by auto
  have l: "lower_char c \<noteq> CHR ''_''"
    using lower_char_range [of c] underscore_no_letter(1) c by auto
  have u: "upper_char c \<noteq> CHR ''_''"
    using upper_char_range [of c] underscore_no_letter(2) c by auto
  from Cons.IH [OF s] c l u show ?case by auto
qed

lemma clean_question_shape:
  "length (clean_question q) = length q \<and> CHR ''_'' \<notin> set (clean_question q)"
proof -
  have "CHR ''_'' \<notin> set (py_replace_char (CHR ''_'') (CHR '' '') q)"
    by (auto simp: py_replace_char_def)
  then show ?thesis
    by (simp add: clean_question_def py_title_def title_from_length title_from_no_underscore
        py_replace_char_def)
qed

text \<open>
  The cleaning of the model and the words of the specification agree: on every
  character the tables of the model lower and raise as the specification's
  arithmetic on character codes does, so that a cleaned question is the
  normalised one, and the cleaned questions of a list of tasks are the
  specification's reasons of that side.
\<close>

lemma lower_char_spec: "\<forall>c. lower_char c = spec_small c"
  by code_simp

lemma upper_char_spec: "\<forall>c. upper_char c = spec_capital c"
  by code_simp

lemma letter_spec:
  "\<forall>c. (c \<in> set py_lower_letters \<or> c \<in> set py_upper_letters) = spec_letter c"
  by code_simp

lemma title_from_spec:
  "title_from (case p of None \<Rightarrow> False | Some d \<Rightarrow> spec_letter d) s =
     map (\<lambda>bc. if spec_letter (snd bc)
                then (case fst bc of
                        None \<Rightarrow> spec_capital (snd bc)
                      | Some b \<Rightarrow> if spec_letter b then spec_small (snd bc)
                                  else spec_capital (snd bc))
                else snd bc)
       (zip (p # map Some s) s)"
proof (induction s arbitrary: p)
  case Nil
  then show ?case by simp
next
  case (Cons c cs)
  have l: "(c \<in> set py_lower_letters \<or> c \<in> set py_upper_letters) = spec_letter c"
    using letter_spec by blast
  note ih = Cons.IH [of "Some c"]
  show ?case
  proof (cases "spec_letter c")
    case True
    with ih have t: "title_from True cs =
       map (\<lambda>bc. if spec_letter (snd bc)
                then (case fst bc of
                        None \<Rightarrow> spec_capital (snd bc)
                      | Some b \<Rightarrow> if spec_letter b then spec_small (snd bc)
                                  else spec_capital (snd bc))
                else snd bc)
       (zip (Some c # map Some cs) cs)"
      by simp
    from True l have m: "c \<in> set py_lower_letters \<or> c \<in> set py_upper_letters" by simp
    show ?thesis
      using m t True lower_char_spec upper_char_spec
      by (cases p) (simp_all del: set_simps)
  next
    case False
    with ih have t: "title_from False cs =
       map (\<lambda>bc. if spec_letter (snd bc)
                then (case fst bc of
                        None \<Rightarrow> spec_capital (snd bc)
                      | Some b \<Rightarrow> if spec_letter b then spec_small (snd bc)
                                  else spec_capital (snd bc))
                else snd bc)
       (zip (Some c # map Some cs) cs)"
      by simp
    from False l have m: "\<not> (c \<in> set py_lower_letters \<or> c \<in> set py_upper_letters)" by simp
    show ?thesis
      using m t False
      by (cases p) (simp_all del: set_simps)
  qed
qed

lemma clean_question_spec: "clean_question q = spec_normalize q"
  using title_from_spec [of None "map (\<lambda>c. if c = CHR ''_'' then CHR '' '' else c) q"]
  by (simp add: clean_question_def py_title_def py_replace_char_def spec_normalize_def
      spec_title_case_def)

lemma text_items_spec:
  "text_items qs = concat (map (\<lambda>i. case i of QStr s \<Rightarrow> [s] | QOther \<Rightarrow> []) qs)"
  by (induction qs rule: text_items.induct) simp_all

lemma valid_questions_spec:
  "concat (map text_items (valid_questions ts)) = concat (map spec_questions ts)"
proof (induction ts)
  case Nil
  then show ?case by simp
next
  case (Cons t ts)
  show ?case
  proof (cases "question t")
    case None
    with Cons.IH show ?thesis by (simp add: spec_questions_def)
  next
    case (Some v)
    show ?thesis
    proof (cases v)
      case (QList qs)
      with Some Cons.IH show ?thesis
        by (cases qs) (simp_all add: spec_questions_def text_items_spec)
    next
      case QNotList
      with Some Cons.IH show ?thesis by (simp add: spec_questions_def)
    qed
  qed
qed

lemma cleaned_questions_spec: "cleaned_questions ts = spec_reasons ts"
proof -
  have "map clean_question xs = map spec_normalize xs" for xs
    by (simp add: clean_question_spec)
  then show ?thesis
    by (simp only: cleaned_questions_def spec_reasons_def valid_questions_spec)
qed

lemma is_automatable_spec:
  "filter is_automatable ts = filter (\<lambda>t. automatability_flag t = Some ''Automatable'') ts"
  "filter (\<lambda>t. \<not> is_automatable t) ts
     = filter (\<lambda>t. automatability_flag t \<noteq> Some ''Automatable'') ts"
proof -
  have "is_automatable = (\<lambda>t. automatability_flag t = Some ''Automatable'')"
    by (rule ext) (simp add: is_automatable_def)
  then show "filter is_automatable ts
               = filter (\<lambda>t. automatability_flag t = Some ''Automatable'') ts"
    by simp
  show "filter (\<lambda>t. \<not> is_automatable t) ts
          = filter (\<lambda>t. automatability_flag t \<noteq> Some ''Automatable'') ts"
    by (simp add: is_automatable_def)
qed

lemma get_task_analysis_no_flag:
  assumes "all_tasks = all_tasks_of (rows (filter_category job_data category level))"
    and "all_tasks \<noteq> []"
    and "list_all (\<lambda>t. automatability_flag t = None) all_tasks"
  shows "get_task_analysis job_data category level = Inl (KeyError ''automatability_flag'')"
proof -
  from assms(3) have "\<not> list_ex (\<lambda>t. automatability_flag t \<noteq> None) all_tasks"
    by (simp add: list_all_iff list_ex_iff)
  then have "''automatability_flag'' \<notin> set (task_columns (DataFrame all_tasks))"
    by (simp only: DataFrame_flag_column not_False_eq_True)
  then show ?thesis
    unfolding get_task_analysis_def Let_def assms(1) [symmetric]
    using assms(2) by simp
qed

lemma get_task_analysis_no_question:
  assumes "all_tasks = all_tasks_of (rows (filter_category job_data category level))"
    and "all_tasks \<noteq> []"
    and "list_ex (\<lambda>t. automatability_flag t \<noteq> None) all_tasks"
    and "list_all (\<lambda>t. question t = None) all_tasks"
  shows "get_task_analysis job_data category level = Inl (KeyError ''question'')"
proof -
  from assms(3) have flag: "''automatability_flag'' \<in> set (task_columns (DataFrame all_tasks))"
    by (simp only: DataFrame_flag_column)
  from assms(4) have "\<not> list_ex (\<lambda>t. question t \<noteq> None) all_tasks"
    by (simp add: list_all_iff list_ex_iff)
  then have "''question'' \<notin> set (task_columns (DataFrame all_tasks))"
    by (simp only: DataFrame_question_column not_False_eq_True)
  then have "extract_questions_fast (select_rows is_automatable (DataFrame all_tasks))
               = Inl (KeyError ''question'')"
    by (simp add: extract_questions_fast_eq select_rows_simps)
  then show ?thesis
    unfolding get_task_analysis_def Let_def assms(1) [symmetric]
    using assms(2) flag by simp
qed

text \<open>
  C7 does not hold of the code for every non-empty pooled task list. The three
  cases of such a list: when no task has an \<^verbatim>\<open>automatability_flag\<close> key, line
  296 raises \<^verbatim>\<open>KeyError\<close> and no list is returned; when some task has one and
  no task has a \<^verbatim>\<open>question\<close> key, line 308 raises \<^verbatim>\<open>KeyError\<close>; in the
  remaining case, for questions of ASCII text, the handler returns a body whose
  \<^verbatim>\<open>automation_drivers\<close> are entries \<^verbatim>\<open>{reason, count}\<close> for the ten most
  frequent normalised questions of the tasks whose flag is exactly
  \<^verbatim>\<open>Automatable\<close>, by falling count, and whose \<^verbatim>\<open>automation_barriers\<close> are
  the same for all other tasks, those without a flag included. The sides and
  the normalisation are the specification's (\<open>spec_reasons\<close>), not the
  model's. Cleaning turns \<^verbatim>\<open>years_experience\<close> into
  \<^verbatim>\<open>Years Experience\<close>, and for the three automatable tasks of
  \<open>drivers_frame\<close> the drivers start with \<^verbatim>\<open>Years Experience\<close>, count 2.
\<close>

theorem ranked_reasons_or_key_error:
  assumes "all_tasks = all_tasks_of (rows (filter_category job_data category level))"
    and "all_tasks \<noteq> []"
  shows "(list_all (\<lambda>t. automatability_flag t = None) all_tasks
            \<longrightarrow> get_task_analysis job_data category level = Inl (KeyError ''automatability_flag''))
       \<and> (list_ex (\<lambda>t. automatability_flag t \<noteq> None) all_tasks
            \<and> list_all (\<lambda>t. question t = None) all_tasks
            \<longrightarrow> get_task_analysis job_data category level = Inl (KeyError ''question''))
       \<and> (list_ex (\<lambda>t. automatability_flag t \<noteq> None) all_tasks
            \<and> list_ex (\<lambda>t. question t \<noteq> None) all_tasks
            \<and> list_all ascii_text (concat (map spec_questions all_tasks))
            \<longrightarrow> (\<exists>body drivers barriers.
                  get_task_analysis job_data category level = Inr body
                  \<and> jget body ''automation_drivers'' =
                      Some (JArr (map (\<lambda>e. JObj [(''reason'', JStr (fst e)),
                                                 (''count'', JInt (int (snd e)))]) drivers))
                  \<and> jget body ''automation_barriers'' =
                      Some (JArr (map (\<lambda>e. JObj [(''reason'', JStr (fst e)),
                                                 (''count'', JInt (int (snd e)))]) barriers))
                  \<and> top_by_count 10
                       (spec_reasons
                          (filter (\<lambda>t. automatability_flag t = Some ''Automatable'') all_tasks))
                       drivers
                  \<and> top_by_count 10
                       (spec_reasons
                          (filter (\<lambda>t. automatability_flag t \<noteq> Some ''Automatable'') all_tasks))
                       barriers))
       \<and> clean_question ''years_experience'' = ''Years Experience''
       \<and> (\<exists>body. get_task_analysis drivers_frame None None = Inr body
              \<and> jget body ''automation_drivers'' =
                  Some (JArr [JObj [(''reason'', JStr ''Years Experience''), (''count'', JInt 2)],
                              JObj [(''reason'', JStr ''Physical Dexterity''), (''count'', JInt 1)]])
              \<and> jget body ''automation_barriers'' = Some (JArr []))"
proof (intro conjI impI)
  assume "list_all (\<lambda>t. automatability_flag t = None) all_tasks"
  then show "get_task_analysis job_data category level = Inl (KeyError ''automatability_flag'')"
    by (rule get_task_analysis_no_flag [OF assms])
next
  assume a: "list_ex (\<lambda>t. automatability_flag t \<noteq> None) all_tasks
             \<and> list_all (\<lambda>t. question t = None) all_tasks"
  show "get_task_analysis job_data category level = Inl (KeyError ''question'')"
    by (rule get_task_analysis_no_question [OF assms conjunct1 [OF a] conjunct2 [OF a]])
next
  let ?d = "most_common 10 (Counter (cleaned_questions (filter is_automatable all_tasks)))"
  let ?b = "most_common 10
              (Counter (cleaned_questions (filter (\<lambda>t. \<not> is_automatable t) all_tasks)))"
  assume a: "list_ex (\<lambda>t. automatability_flag t \<noteq> None) all_tasks
             \<and> list_ex (\<lambda>t. question t \<noteq> None) all_tasks
             \<and> list_all ascii_text (concat (map spec_questions all_tasks))"
  note body = get_task_analysis_body [OF conjunct1 [OF a] conjunct1 [OF conjunct2 [OF a]] assms(1)]
  have d: "jget (projr (get_task_analysis job_data category level)) ''automation_drivers''
             = Some (JArr (map (\<lambda>e. JObj [(''reason'', JStr (fst e)),
                                          (''count'', JInt (int (snd e)))]) ?d))"
    by (simp add: body reason_counts_def)
  have b: "jget (projr (get_task_analysis job_data category level)) ''automation_barriers''
             = Some (JArr (map (\<lambda>e. JObj [(''reason'', JStr (fst e)),
                                          (''count'', JInt (int (snd e)))]) ?b))"
    by (simp add: body reason_counts_def)
  have r: "get_task_analysis job_data category level
             = Inr (projr (get_task_analysis job_data category level))"
    by (simp add: body)
  have td: "top_by_count 10
              (spec_reasons (filter (\<lambda>t. automatability_flag t = Some ''Automatable'') all_tasks)) ?d"
    using most_common_top [of 10 "cleaned_questions (filter is_automatable all_tasks)"]
    by (simp only: cleaned_questions_spec is_automatable_spec)
  have tb: "top_by_count 10
              (spec_reasons (filter (\<lambda>t. automatability_flag t \<noteq> Some ''Automatable'') all_tasks)) ?b"
    using most_common_top [of 10 "cleaned_questions (filter (\<lambda>t. \<not> is_automatable t) all_tasks)"]
    by (simp only: cleaned_questions_spec is_automatable_spec)
  from r d b td tb
  show "\<exists>body drivers barriers.
                  get_task_analysis job_data category level = Inr body
                  \<and> jget body ''automation_drivers'' =
                      Some (JArr (map (\<lambda>e. JObj [(''reason'', JStr (fst e)),
                                                 (''count'', JInt (int (snd e)))]) drivers))
                  \<and> jget body ''automation_barriers'' =
                      Some (JArr (map (\<lambda>e. JObj [(''reason'', JStr (fst e)),
                                                 (''count'', JInt (int (snd e)))]) barriers))
                  \<and> top_by_count 10
                       (spec_reasons
                          (filter (\<lambda>t. automatability_flag t = Some ''Automatable'') all_tasks))
                       drivers
                  \<and> top_by_count 10
                       (spec_reasons
                          (filter (\<lambda>t. automatability_flag t \<noteq> Some ''Automatable'') all_tasks))
                       barriers"
    by blast
next
  show "clean_question ''years_experience'' = ''Years Experience''"
    by code_simp
next
  let ?ts = "[question_task ''Automatable'' ''Primary'' [''years_experience''],
              question_task ''Automatable'' ''Secondary'' [''years_experience''],
              question_task ''Automatable'' ''Primary'' [''physical_dexterity'']]"
  have ts: "?ts = all_tasks_of (rows (filter_category drivers_frame None None))"
    by (simp add: all_tasks_of_def filter_category_def drivers_frame_def)
  have f: "list_ex (\<lambda>t. automatability_flag t \<noteq> None) ?ts"
    and q: "list_ex (\<lambda>t. question t \<noteq> None) ?ts"
    by (simp_all add: question_task_def)
  have d: "most_common 10 (Counter (cleaned_questions (filter is_automatable ?ts)))
             = [(''Years Experience'', 2), (''Physical Dexterity'', 1)]"
    by code_simp
  have b: "most_common 10 (Counter (cleaned_questions (filter (\<lambda>t. \<not> is_automatable t) ?ts))) = []"
    by code_simp
  show "\<exists>body. get_task_analysis drivers_frame None None = Inr body
          \<and> jget body ''automation_drivers'' =
              Some (JArr [JObj [(''reason'', JStr ''Years Experience''), (''count'', JInt 2)],
                          JObj [(''reason'', JStr ''Physical Dexterity''), (''count'', JInt 1)]])
          \<and> jget body ''automation_barriers'' = Some (JArr [])"
    unfolding get_task_analysis_body [OF f q ts] d b
    by (simp add: reason_counts_def)
qed

theorem ranked_reasons_or_key_error_witness:
  "all_tasks_of (rows (filter_category unflagged_frame None None)) \<noteq> []
   \<and> list_all (\<lambda>t. automatability_flag t = None)
        (all_tasks_of (rows (filter_category unflagged_frame None None)))
   \<and> get_task_analysis unflagged_frame None None = Inl (KeyError ''automatability_flag'')
   \<and> all_tasks_of (rows (filter_category unquestioned_frame None None)) \<noteq> []
   \<and> list_ex (\<lambda>t. automatability_flag t \<noteq> None)
        (all_tasks_of (rows (filter_category unquestioned_frame None None)))
   \<and> list_all (\<lambda>t. question t = None)
        (all_tasks_of (rows (filter_category unquestioned_frame None None)))
   \<and> get_task_analysis unquestioned_frame None None = Inl (KeyError ''question'')
   \<and> all_tasks_of (rows (filter_category ranking_frame None None)) \<noteq> []
   \<and> list_ex (\<lambda>t. automatability_flag t \<noteq> None)
        (all_tasks_of (rows (filter_category ranking_frame None None)))
   \<and> list_ex (\<lambda>t. question t \<noteq> None)
        (all_tasks_of (rows (filter_category ranking_frame None None)))
   \<and> list_all ascii_text
        (concat (map spec_questions (all_tasks_of (rows (filter_category ranking_frame None None)))))
   \<and> (\<exists>body drivers barriers.
          get_task_analysis ranking_frame None None = Inr body
          \<and> jget body ''automation_drivers'' =
              Some (JArr (map (\<lambda>e. JObj [(''reason'', JStr (fst e)),
                                         (''count'', JInt (int (snd e)))]) drivers))
          \<and> jget body ''automation_barriers'' =
              Some (JArr (map (\<lambda>e. JObj [(''reason'', JStr (fst e)),
                                         (''count'', JInt (int (snd e)))]) barriers))
          \<and> top_by_count 10
               (spec_reasons
                  (filter (\<lambda>t. automatability_flag t = Some ''Automatable'')
                     (all_tasks_of (rows (filter_category ranking_frame None None)))))
               drivers
          \<and> top_by_count 10
               (spec_reasons
                  (filter (\<lambda>t. automatability_flag t \<noteq> Some ''Automatable'')
                     (all_tasks_of (rows (filter_category ranking_frame None None)))))
               barriers)
   \<and> spec_reasons
        (filter (\<lambda>t. automatability_flag t = Some ''Automatable'')
           (all_tasks_of (rows (filter_category ranking_frame None None))))
       = [''Years Experience'', ''Physical Dexterity'', ''Years Experience'']
   \<and> spec_reasons
        (filter (\<lambda>t. automatability_flag t \<noteq> Some ''Automatable'')
           (all_tasks_of (rows (filter_category ranking_frame None None))))
       = [''Years Experience'', ''Team Work'', ''Team Work'', ''Years Experience'']
   \<and> (case get_task_analysis ranking_frame None None of
         Inl e \<Rightarrow> False
       | Inr body \<Rightarrow>
           jget body ''automation_drivers'' =
             Some (JArr [JObj [(''reason'', JStr ''Years Experience''), (''count'', JInt 2)],
                         JObj [(''reason'', JStr ''Physical Dexterity''), (''count'', JInt 1)]])
           \<and> jget body ''automation_barriers'' =
             Some (JArr [JObj [(''reason'', JStr ''Years Experience''), (''count'', JInt 2)],
                         JObj [(''reason'', JStr ''Team Work''), (''count'', JInt 2)]]))"
proof -
  have u1: "all_tasks_of (rows (filter_category unflagged_frame None None)) \<noteq> []"
    and u2: "list_all (\<lambda>t. automatability_flag t = None)
               (all_tasks_of (rows (filter_category unflagged_frame None None)))"
    by (simp_all add: all_tasks_of_def filter_category_def unflagged_frame_def)
  from u2 ranked_reasons_or_key_error [OF refl u1]
  have u3: "get_task_analysis unflagged_frame None None = Inl (KeyError ''automatability_flag'')"
    by blast
  have q1: "all_tasks_of (rows (filter_category unquestioned_frame None None)) \<noteq> []"
    and q2: "list_ex (\<lambda>t. automatability_flag t \<noteq> None)
               (all_tasks_of (rows (filter_category unquestioned_frame None None)))"
    and q3: "list_all (\<lambda>t. question t = None)
               (all_tasks_of (rows (filter_category unquestioned_frame None None)))"
    by (simp_all add: all_tasks_of_def filter_category_def unquestioned_frame_def)
  from q2 q3 ranked_reasons_or_key_error [OF refl q1]
  have q4: "get_task_analysis unquestioned_frame None None = Inl (KeyError ''question'')"
    by blast
  have r1: "all_tasks_of (rows (filter_category ranking_frame None None)) \<noteq> []"
    and r2: "list_ex (\<lambda>t. automatability_flag t \<noteq> None)
               (all_tasks_of (rows (filter_category ranking_frame None None)))"
    and r3: "list_ex (\<lambda>t. question t \<noteq> None)
               (all_tasks_of (rows (filter_category ranking_frame None None)))"
    by (simp_all add: all_tasks_of_def filter_category_def ranking_frame_def category_row_def)
  have r4: "list_all ascii_text
        (concat (map spec_questions (all_tasks_of (rows (filter_category ranking_frame None None)))))"
    by code_simp
  from r2 r3 r4 ranked_reasons_or_key_error [OF refl r1]
  have r5: "\<exists>body drivers barriers.
          get_task_analysis ranking_frame None None = Inr body
          \<and> jget body ''automation_drivers'' =
              Some (JArr (map (\<lambda>e. JObj [(''reason'', JStr (fst e)),
                                         (''count'', JInt (int (snd e)))]) drivers))
          \<and> jget body ''automation_barriers'' =
              Some (JArr (map (\<lambda>e. JObj [(''reason'', JStr (fst e)),
                                         (''count'', JInt (int (snd e)))]) barriers))
          \<and> top_by_count 10
               (spec_reasons
                  (filter (\<lambda>t. automatability_flag t = Some ''Automatable'')
                     (all_tasks_of (rows (filter_category ranking_frame None None)))))
               drivers
          \<and> top_by_count 10
               (spec_reasons
                  (filter (\<lambda>t. automatability_flag t \<noteq> Some ''Automatable'')
                     (all_tasks_of (rows (filter_category ranking_frame None None)))))
               barriers"
    by blast
  have s1: "spec_reasons
        (filter (\<lambda>t. automatability_flag t = Some ''Automatable'')
           (all_tasks_of (rows (filter_category ranking_frame None None))))
       = [''Years Experience'', ''Physical Dexterity'', ''Years Experience'']"
    by code_simp
  have s2: "spec_reasons
        (filter (\<lambda>t. automatability_flag t \<noteq> Some ''Automatable'')
           (all_tasks_of (rows (filter_category ranking_frame None None))))
       = [''Years Experience'', ''Team Work'', ''Team Work'', ''Years Experience'']"
    by code_simp
  have run: "case get_task_analysis ranking_frame None None of
         Inl e \<Rightarrow> False
       | Inr body \<Rightarrow>
           jget body ''automation_drivers'' =
             Some (JArr [JObj [(''reason'', JStr ''Years Experience''), (''count'', JInt 2)],
                         JObj [(''reason'', JStr ''Physical Dexterity''), (''count'', JInt 1)]])
           \<and> jget body ''automation_barriers'' =
             Some (JArr [JObj [(''reason'', JStr ''Years Experience''), (''count'', JInt 2)],
                         JObj [(''reason'', JStr ''Team Work''), (''count'', JInt 2)]])"
    by code_simp
  from u1 u2 u3 q1 q2 q3 q4 have first:
    "all_tasks_of (rows (filter_category unflagged_frame None None)) \<noteq> []
     \<and> list_all (\<lambda>t. automatability_flag t = None)
          (all_tasks_of (rows (filter_category unflagged_frame None None)))
     \<and> get_task_analysis unflagged_frame None None = Inl (KeyError ''automatability_flag'')
     \<and> all_tasks_of (rows (filter_category unquestioned_frame None None)) \<noteq> []
     \<and> list_ex (\<lambda>t. automatability_flag t \<noteq> None)
          (all_tasks_of (rows (filter_category unquestioned_frame None None)))
     \<and> list_all (\<lambda>t. question t = None)
          (all_tasks_of (rows (filter_category unquestioned_frame None None)))
     \<and> get_task_analysis unquestioned_frame None None = Inl (KeyError ''question'')"
    by (intro conjI)
  from r1 r2 r3 r4 have second:
    "all_tasks_of (rows (filter_category ranking_frame None None)) \<noteq> []
     \<and> list_ex (\<lambda>t. automatability_flag t \<noteq> None)
          (all_tasks_of (rows (filter_category ranking_frame None None)))
     \<and> list_ex (\<lambda>t. question t \<noteq> None)
          (all_tasks_of (rows (filter_category ranking_frame None None)))
     \<and> list_all ascii_text
          (concat (map spec_questions (all_tasks_of (rows (filter_category ranking_frame None None)))))"
    by (intro conjI)
  show ?thesis
    using first second r5 s1 s2 run by (intro conjI) (elim conjE, assumption)+
qed

lemma filter_key_absent:
  "k \<notin> fst ` set c \<Longrightarrow> filter (\<lambda>kv. fst kv = k) c = []"
  by (induction c) auto

lemma counter_get_filter:
  "distinct (map fst c) \<Longrightarrow> sum_list (map snd (filter (\<lambda>kv. fst kv = k) c)) = counter_get c k"
proof (induction c)
  case Nil
  then show ?case by (simp add: counter_get_def)
next
  case (Cons kv c)
  obtain k' n where kv: "kv = (k', n)" by (cases kv)
  show ?case
  proof (cases "k' = k")
    case True
    with Cons.prems kv have "k \<notin> fst ` set c" by simp
    then have "filter (\<lambda>kv. fst kv = k) c = []" by (rule filter_key_absent)
    with True kv show ?thesis by (simp add: counter_get_def)
  next
    case False
    with Cons kv show ?thesis by (simp add: counter_get_def)
  qed
qed

lemma sum_by_three_keys:
  fixes c :: "('a \<times> nat) list"
  shows "p \<noteq> s \<Longrightarrow> p \<noteq> a \<Longrightarrow> s \<noteq> a \<Longrightarrow>
   sum_list (map snd (filter (\<lambda>kv. fst kv = p) c))
   + sum_list (map snd (filter (\<lambda>kv. fst kv = s) c))
   + sum_list (map snd (filter (\<lambda>kv. fst kv = a) c))
   + sum_list (map snd (filter (\<lambda>kv. fst kv \<notin> set [p, s, a]) c))
   = sum_list (map snd c)"
  by (induction c) auto

lemma type_counts_add_up:
  "counter_get (Counter xs) ''primary'' + counter_get (Counter xs) ''secondary''
   + counter_get (Counter xs) ''ancillary''
   + sum_list (map snd (filter (\<lambda>kv. fst kv \<notin> set [''primary'', ''secondary'', ''ancillary''])
        (Counter xs)))
   = length xs"
proof -
  have "counter_get (Counter xs) k = sum_list (map snd (filter (\<lambda>kv. fst kv = k) (Counter xs)))" for k
    by (simp add: counter_get_filter Counter_distinct)
  then show ?thesis
    using sum_by_three_keys [of "''primary''" "''secondary''" "''ancillary''" "Counter xs"]
    by (simp add: Counter_sum)
qed

text \<open>
  C10 does not hold of the code for every non-empty pooled task list. The three
  cases of such a list: when no task has an \<^verbatim>\<open>automatability_flag\<close> key, line
  296 raises \<^verbatim>\<open>KeyError\<close>; when some task has one and no task has a
  \<^verbatim>\<open>question\<close> key, line 308 raises \<^verbatim>\<open>KeyError\<close>; in the remaining case the
  handler returns a body in which \<^verbatim>\<open>automatable\<close> counts the tasks flagged
  exactly \<^verbatim>\<open>Automatable\<close>, \<^verbatim>\<open>non_automatable\<close> counts all others (tasks
  without a flag included), the two add up to \<^verbatim>\<open>total_tasks\<close>, and so do
  \<^verbatim>\<open>primary\<close>, \<^verbatim>\<open>secondary\<close>, \<^verbatim>\<open>ancillary\<close> and \<^verbatim>\<open>other\<close>.
\<close>

theorem task_analysis_counts_or_key_error:
  assumes "all_tasks = all_tasks_of (rows (filter_category job_data category level))"
    and "all_tasks \<noteq> []"
  shows "(list_all (\<lambda>t. automatability_flag t = None) all_tasks
            \<longrightarrow> get_task_analysis job_data category level = Inl (KeyError ''automatability_flag''))
       \<and> (list_ex (\<lambda>t. automatability_flag t \<noteq> None) all_tasks
            \<and> list_all (\<lambda>t. question t = None) all_tasks
            \<longrightarrow> get_task_analysis job_data category level = Inl (KeyError ''question''))
       \<and> (list_ex (\<lambda>t. automatability_flag t \<noteq> None) all_tasks
            \<and> list_ex (\<lambda>t. question t \<noteq> None) all_tasks
            \<longrightarrow> (\<exists>body automatable non_automatable primary secondary ancillary other.
                  get_task_analysis job_data category level = Inr body
                  \<and> jget body ''total_tasks'' = Some (JInt (int (length all_tasks)))
                  \<and> jget body ''automation_status'' =
                      Some (JObj [(''automatable'', JInt automatable),
                                  (''non_automatable'', JInt non_automatable)])
                  \<and> automatable = int (length (filter is_automatable all_tasks))
                  \<and> non_automatable = int (length (filter (\<lambda>t. \<not> is_automatable t) all_tasks))
                  \<and> automatable + non_automatable = int (length all_tasks)
                  \<and> jget body ''task_type_distribution'' =
                      Some (JObj [(''primary'', JInt primary), (''secondary'', JInt secondary),
                                  (''ancillary'', JInt ancillary), (''other'', JInt other)])
                  \<and> primary + secondary + ancillary + other = int (length all_tasks)))"
proof (intro conjI impI)
  assume "list_all (\<lambda>t. automatability_flag t = None) all_tasks"
  then have "\<not> list_ex (\<lambda>t. automatability_flag t \<noteq> None) all_tasks"
    by (simp add: list_all_iff list_ex_iff)
  then have "''automatability_flag'' \<notin> set (task_columns (DataFrame all_tasks))"
    by (simp only: DataFrame_flag_column not_False_eq_True)
  then show "get_task_analysis job_data category level = Inl (KeyError ''automatability_flag'')"
    unfolding get_task_analysis_def Let_def assms(1) [symmetric]
    using assms(2) by simp
next
  assume a: "list_ex (\<lambda>t. automatability_flag t \<noteq> None) all_tasks
             \<and> list_all (\<lambda>t. question t = None) all_tasks"
  then have flag: "''automatability_flag'' \<in> set (task_columns (DataFrame all_tasks))"
    by (simp only: DataFrame_flag_column)
  from a have "\<not> list_ex (\<lambda>t. question t \<noteq> None) all_tasks"
    by (simp add: list_all_iff list_ex_iff)
  then have "''question'' \<notin> set (task_columns (DataFrame all_tasks))"
    by (simp only: DataFrame_question_column not_False_eq_True)
  then have "extract_questions_fast (select_rows is_automatable (DataFrame all_tasks))
               = Inl (KeyError ''question'')"
    by (simp add: extract_questions_fast_eq select_rows_simps)
  then show "get_task_analysis job_data category level = Inl (KeyError ''question'')"
    unfolding get_task_analysis_def Let_def assms(1) [symmetric]
    using assms(2) flag by simp
next
  assume a: "list_ex (\<lambda>t. automatability_flag t \<noteq> None) all_tasks
             \<and> list_ex (\<lambda>t. question t \<noteq> None) all_tasks"
  let ?c = "Counter (map (\<lambda>t. classification_of t ''Not specified'') all_tasks)"
  let ?o = "sum_list (map snd
              (filter (\<lambda>kv. fst kv \<notin> set [''primary'', ''secondary'', ''ancillary'']) ?c))"
  note body = get_task_analysis_body [OF conjunct1 [OF a] conjunct2 [OF a] assms(1)]
  have r: "get_task_analysis job_data category level
             = Inr (projr (get_task_analysis job_data category level))"
    by (simp add: body)
  have t: "jget (projr (get_task_analysis job_data category level)) ''total_tasks''
             = Some (JInt (int (length all_tasks)))"
    by (simp add: body)
  have non: "int (length all_tasks) - int (length (filter is_automatable all_tasks))
               = int (length (filter (\<lambda>t. \<not> is_automatable t) all_tasks))"
    using sum_length_filter_compl [of is_automatable all_tasks] by simp
  have s: "jget (projr (get_task_analysis job_data category level)) ''automation_status''
             = Some (JObj [(''automatable'', JInt (int (length (filter is_automatable all_tasks)))),
                           (''non_automatable'',
                              JInt (int (length (filter (\<lambda>t. \<not> is_automatable t) all_tasks))))])"
    by (simp add: body non)
  have sum1: "int (length (filter is_automatable all_tasks))
               + int (length (filter (\<lambda>t. \<not> is_automatable t) all_tasks))
               = int (length all_tasks)"
    using non by simp
  have d: "jget (projr (get_task_analysis job_data category level)) ''task_type_distribution''
             = Some (JObj [(''primary'', JInt (int (counter_get ?c ''primary''))),
                           (''secondary'', JInt (int (counter_get ?c ''secondary''))),
                           (''ancillary'', JInt (int (counter_get ?c ''ancillary''))),
                           (''other'', JInt (int ?o))])"
    by (simp add: body)
  have "counter_get ?c ''primary'' + counter_get ?c ''secondary'' + counter_get ?c ''ancillary'' + ?o
          = length all_tasks"
    using type_counts_add_up [of "map (\<lambda>t. classification_of t ''Not specified'') all_tasks"]
    by simp
  then have "int (counter_get ?c ''primary'' + counter_get ?c ''secondary''
                  + counter_get ?c ''ancillary'' + ?o) = int (length all_tasks)"
    by (rule arg_cong)
  then have sum2: "int (counter_get ?c ''primary'') + int (counter_get ?c ''secondary'')
                   + int (counter_get ?c ''ancillary'') + int ?o = int (length all_tasks)"
    by (simp only: of_nat_add)
  from r t s sum1 d sum2
  show "\<exists>body automatable non_automatable primary secondary ancillary other.
                  get_task_analysis job_data category level = Inr body
                  \<and> jget body ''total_tasks'' = Some (JInt (int (length all_tasks)))
                  \<and> jget body ''automation_status'' =
                      Some (JObj [(''automatable'', JInt automatable),
                                  (''non_automatable'', JInt non_automatable)])
                  \<and> automatable = int (length (filter is_automatable all_tasks))
                  \<and> non_automatable = int (length (filter (\<lambda>t. \<not> is_automatable t) all_tasks))
                  \<and> automatable + non_automatable = int (length all_tasks)
                  \<and> jget body ''task_type_distribution'' =
                      Some (JObj [(''primary'', JInt primary), (''secondary'', JInt secondary),
                                  (''ancillary'', JInt ancillary), (''other'', JInt other)])
                  \<and> primary + secondary + ancillary + other = int (length all_tasks)"
    by blast
qed

theorem task_analysis_counts_or_key_error_witness:
  "all_tasks_of (rows (filter_category unflagged_frame None None)) \<noteq> []
   \<and> list_all (\<lambda>t. automatability_flag t = None)
        (all_tasks_of (rows (filter_category unflagged_frame None None)))
   \<and> get_task_analysis unflagged_frame None None = Inl (KeyError ''automatability_flag'')
   \<and> all_tasks_of (rows (filter_category unquestioned_frame None None)) \<noteq> []
   \<and> list_ex (\<lambda>t. automatability_flag t \<noteq> None)
        (all_tasks_of (rows (filter_category unquestioned_frame None None)))
   \<and> list_all (\<lambda>t. question t = None)
        (all_tasks_of (rows (filter_category unquestioned_frame None None)))
   \<and> get_task_analysis unquestioned_frame None None = Inl (KeyError ''question'')
   \<and> all_tasks_of (rows (filter_category drivers_frame None None)) \<noteq> []
   \<and> list_ex (\<lambda>t. automatability_flag t \<noteq> None)
        (all_tasks_of (rows (filter_category drivers_frame None None)))
   \<and> list_ex (\<lambda>t. question t \<noteq> None)
        (all_tasks_of (rows (filter_category drivers_frame None None)))
   \<and> (\<exists>body primary secondary ancillary other.
         get_task_analysis drivers_frame None None = Inr body
         \<and> jget body ''total_tasks'' = Some (JInt 3)
         \<and> jget body ''automation_status'' =
             Some (JObj [(''automatable'', JInt 3), (''non_automatable'', JInt 0)])
         \<and> jget body ''task_type_distribution'' =
             Some (JObj [(''primary'', JInt primary), (''secondary'', JInt secondary),
                         (''ancillary'', JInt ancillary), (''other'', JInt other)])
         \<and> primary + secondary + ancillary + other = 3)"
proof -
  let ?u = "all_tasks_of (rows (filter_category unflagged_frame None None))"
  let ?q = "all_tasks_of (rows (filter_category unquestioned_frame None None))"
  let ?d = "all_tasks_of (rows (filter_category drivers_frame None None))"
  have u: "?u \<noteq> []" "list_all (\<lambda>t. automatability_flag t = None) ?u"
    by (simp_all add: all_tasks_of_def filter_category_def unflagged_frame_def)
  have q: "?q \<noteq> []" "list_ex (\<lambda>t. automatability_flag t \<noteq> None) ?q"
    "list_all (\<lambda>t. question t = None) ?q"
    by (simp_all add: all_tasks_of_def filter_category_def unquestioned_frame_def)
  have d: "?d \<noteq> []" "list_ex (\<lambda>t. automatability_flag t \<noteq> None) ?d"
    "list_ex (\<lambda>t. question t \<noteq> None) ?d"
    by (simp_all add: all_tasks_of_def filter_category_def drivers_frame_def question_task_def)
  have n: "length (filter is_automatable ?d) = 3" "length (filter (\<lambda>t. \<not> is_automatable t) ?d) = 0"
    "length ?d = 3"
    by (simp_all add: all_tasks_of_def filter_category_def drivers_frame_def question_task_def
        is_automatable_def)
  from task_analysis_counts_or_key_error [OF refl u(1)] u(2)
  have r1: "get_task_analysis unflagged_frame None None = Inl (KeyError ''automatability_flag'')"
    by blast
  from task_analysis_counts_or_key_error [OF refl q(1)] q(2,3)
  have r2: "get_task_analysis unquestioned_frame None None = Inl (KeyError ''question'')"
    by blast
  from task_analysis_counts_or_key_error [OF refl d(1)] d(2,3)
  have r3: "\<exists>body primary secondary ancillary other.
         get_task_analysis drivers_frame None None = Inr body
         \<and> jget body ''total_tasks'' = Some (JInt 3)
         \<and> jget body ''automation_status'' =
             Some (JObj [(''automatable'', JInt 3), (''non_automatable'', JInt 0)])
         \<and> jget body ''task_type_distribution'' =
             Some (JObj [(''primary'', JInt primary), (''secondary'', JInt secondary),
                         (''ancillary'', JInt ancillary), (''other'', JInt other)])
         \<and> primary + secondary + ancillary + other = 3"
    unfolding n by (simp only: of_nat_numeral of_nat_0) blast
  from u q d r1 r2 r3 show ?thesis by blast
qed

section \<open>The automation matrix\<close>

lemma matrix_point_emitted:
  assumes "matrix_point level_4_category group_data = Inr (Some point)"
  shows "all_tasks_of group_data \<noteq> []
         \<and> jget point ''category'' = Some (cell_json level_4_category)
         \<and> jget point ''quadrant'' =
             Some (JStr (fst (quadrant_color (overall_automation_pct (all_tasks_of group_data))
                                (primary_automation_pct (all_tasks_of group_data)))))"
  using assms by (auto simp: matrix_point_def Let_def split: if_splits)

lemma matrix_loop_emitted:
  "matrix_loop groups = Inr results \<Longrightarrow> point \<in> set results
     \<Longrightarrow> \<exists>c g. (c, g) \<in> set groups \<and> matrix_point c g = Inr (Some point)"
proof (induction groups arbitrary: results)
  case Nil
  then show ?case by simp
next
  case (Cons cg groups)
  obtain c g where cg: "cg = (c, g)" by (cases cg)
  show ?case
  proof (cases "matrix_point c g")
    case (Inl e)
    with Cons.prems cg show ?thesis by simp
  next
    case (Inr r)
    show ?thesis
    proof (cases r)
      case None
      with Inr Cons.prems cg have "matrix_loop groups = Inr results" by simp
      from Cons.IH [OF this Cons.prems(2)] show ?thesis by auto
    next
      case (Some p)
      with Inr Cons.prems(1) cg obtain rest where rest: "matrix_loop groups = Inr rest"
        and res: "results = p # rest"
        by (auto split: sum.splits)
      show ?thesis
      proof (cases "point = p")
        case True
        with Inr Some cg show ?thesis by auto
      next
        case False
        with res Cons.prems(2) have "point \<in> set rest" by simp
        from Cons.IH [OF rest this] show ?thesis by auto
      qed
    qed
  qed
qed

lemma groupby_group:
  "(c, g) \<in> set (groupby col rs) \<Longrightarrow> g = filter (\<lambda>r. cells r col = c) rs"
  by (auto simp: groupby_def)

lemma quadrant_color_cases:
  "(overall < 50 \<and> primary \<ge> 50 \<and> fst (quadrant_color overall primary) = ''upper_left'')
   \<or> (overall \<ge> 50 \<and> primary \<ge> 50 \<and> fst (quadrant_color overall primary) = ''upper_right'')
   \<or> (overall < 50 \<and> primary < 50 \<and> fst (quadrant_color overall primary) = ''lower_left'')
   \<or> (overall \<ge> 50 \<and> primary < 50 \<and> fst (quadrant_color overall primary) = ''lower_right'')"
  by (auto simp: quadrant_color_def)

text \<open>
  C1. Every point that \<^verbatim>\<open>/api/automation_matrix\<close> emits belongs to a
  level-4 category whose pooled task list is not empty, and its quadrant follows the two
  percentages of that list as the source computes them (lines 182 and 189-192,
  before they are rounded to one decimal for display), with both thresholds at
  50 and 50 itself on the upper side: below 50 overall and at least 50 primary is
  \<^verbatim>\<open>upper_left\<close>, at least 50 in both \<^verbatim>\<open>upper_right\<close>, below 50 in both
  \<^verbatim>\<open>lower_left\<close>, at least 50 overall and below 50 primary \<^verbatim>\<open>lower_right\<close>;
  in particular 50 and 50 is \<^verbatim>\<open>upper_right\<close>.
\<close>

theorem matrix_quadrant_thresholds:
  assumes "get_automation_matrix job_data category level = Inr (JObj [(''matrix_data'', JArr results)])"
    and "point \<in> set results"
  shows "\<exists>level_4_category all_tasks overall primary.
           jget point ''category'' = Some (cell_json level_4_category)
           \<and> all_tasks = all_tasks_of (filter (\<lambda>r. cells r ''level_4_name'' = level_4_category)
                                         (rows (filter_category job_data category level)))
           \<and> all_tasks \<noteq> []
           \<and> overall = overall_automation_pct all_tasks
           \<and> primary = primary_automation_pct all_tasks
           \<and> (overall < 50 \<and> primary \<ge> 50 \<and> jget point ''quadrant'' = Some (JStr ''upper_left'')
              \<or> overall \<ge> 50 \<and> primary \<ge> 50 \<and> jget point ''quadrant'' = Some (JStr ''upper_right'')
              \<or> overall < 50 \<and> primary < 50 \<and> jget point ''quadrant'' = Some (JStr ''lower_left'')
              \<or> overall \<ge> 50 \<and> primary < 50 \<and> jget point ''quadrant'' = Some (JStr ''lower_right''))
           \<and> (overall = 50 \<and> primary = 50 \<longrightarrow> jget point ''quadrant'' = Some (JStr ''upper_right''))"
proof -
  let ?rs = "rows (filter_category job_data category level)"
  from assms(1) have loop: "matrix_loop (groupby ''level_4_name'' ?rs) = Inr results"
    using assms(2)
    by (auto simp: get_automation_matrix_def Let_def split: if_splits sum.splits)
  from matrix_loop_emitted [OF loop assms(2)] obtain c g
    where grp: "(c, g) \<in> set (groupby ''level_4_name'' ?rs)"
      and pt: "matrix_point c g = Inr (Some point)"
    by blast
  from groupby_group [OF grp] have g: "g = filter (\<lambda>r. cells r ''level_4_name'' = c) ?rs" .
  let ?o = "overall_automation_pct (all_tasks_of g)"
  let ?p = "primary_automation_pct (all_tasks_of g)"
  from matrix_point_emitted [OF pt]
  have ne: "all_tasks_of g \<noteq> []"
    and cat: "jget point ''category'' = Some (cell_json c)"
    and quad: "jget point ''quadrant'' = Some (JStr (fst (quadrant_color ?o ?p)))"
    by simp_all
  have cases: "?o < 50 \<and> ?p \<ge> 50 \<and> jget point ''quadrant'' = Some (JStr ''upper_left'')
              \<or> ?o \<ge> 50 \<and> ?p \<ge> 50 \<and> jget point ''quadrant'' = Some (JStr ''upper_right'')
              \<or> ?o < 50 \<and> ?p < 50 \<and> jget point ''quadrant'' = Some (JStr ''lower_left'')
              \<or> ?o \<ge> 50 \<and> ?p < 50 \<and> jget point ''quadrant'' = Some (JStr ''lower_right'')"
    using quadrant_color_cases [of ?o ?p] unfolding quad by simp
  have boundary: "?o = 50 \<and> ?p = 50 \<longrightarrow> jget point ''quadrant'' = Some (JStr ''upper_right'')"
    unfolding quad by (simp add: quadrant_color_def)
  from cat ne cases boundary show ?thesis
    unfolding g by blast
qed

theorem matrix_quadrant_thresholds_witness:
  "get_automation_matrix matrix_frame None None = Inr (JObj [(''matrix_data'', JArr matrix_points)])
   \<and> matrix_entry ''Legal'' (JRound1 50) (JRound1 50) 2 2 2 ''upper_right'' ''#EF4444'' \<in> set matrix_points
   \<and> overall_automation_pct
        (all_tasks_of (filter (\<lambda>r. cells r ''level_4_name'' = CStr ''Legal'')
                         (rows (filter_category matrix_frame None None)))) = 50
   \<and> primary_automation_pct
        (all_tasks_of (filter (\<lambda>r. cells r ''level_4_name'' = CStr ''Legal'')
                         (rows (filter_category matrix_frame None None)))) = 50
   \<and> jget (matrix_entry ''Legal'' (JRound1 50) (JRound1 50) 2 2 2 ''upper_right'' ''#EF4444'') ''quadrant''
       = Some (JStr ''upper_right'')
   \<and> map (\<lambda>point. jget point ''quadrant'') matrix_points
       = [Some (JStr ''upper_left''), Some (JStr ''lower_left''), Some (JStr ''upper_right''),
          Some (JStr ''lower_right'')]"
proof -
  let ?legal = "matrix_entry ''Legal'' (JRound1 50) (JRound1 50) 2 2 2 ''upper_right'' ''#EF4444''"
  let ?ts = "all_tasks_of (filter (\<lambda>r. cells r ''level_4_name'' = CStr ''Legal'')
                             (rows (filter_category matrix_frame None None)))"
  have run: "get_automation_matrix matrix_frame None None
               = Inr (JObj [(''matrix_data'', JArr matrix_points)])"
    by code_simp
  have mem: "?legal \<in> set matrix_points"
    by (simp add: matrix_points_def)
  have ts: "?ts = [flagged_task ''Automatable'' ''Primary'', flagged_task ''Not Automatable'' ''primary'']"
    by (simp add: all_tasks_of_def filter_category_def matrix_frame_def category_row_def raw_row_def)
  have o: "overall_automation_pct ?ts = 50"
    unfolding ts by (simp add: overall_automation_pct_def flagged_task_def is_automatable_def)
  have p: "primary_automation_pct ?ts = 50"
    unfolding ts by code_simp
  from matrix_quadrant_thresholds [OF run mem] obtain c all_tasks overall primary
    where cat: "jget ?legal ''category'' = Some (cell_json c)"
      and tasks: "all_tasks = all_tasks_of (filter (\<lambda>r. cells r ''level_4_name'' = c)
                                               (rows (filter_category matrix_frame None None)))"
      and ov: "overall = overall_automation_pct all_tasks"
      and pr: "primary = primary_automation_pct all_tasks"
      and boundary: "overall = 50 \<and> primary = 50 \<longrightarrow> jget ?legal ''quadrant'' = Some (JStr ''upper_right'')"
    by blast
  from cat have "cell_json c = JStr ''Legal''" by (simp add: matrix_entry_def)
  then have c: "c = CStr ''Legal''" by (cases c) simp_all
  from boundary have quad: "jget ?legal ''quadrant'' = Some (JStr ''upper_right'')"
    unfolding ov pr tasks c o p by simp
  have all: "map (\<lambda>point. jget point ''quadrant'') matrix_points
       = [Some (JStr ''upper_left''), Some (JStr ''lower_left''), Some (JStr ''upper_right''),
          Some (JStr ''lower_right'')]"
    by (simp add: matrix_points_def matrix_entry_def)
  from run mem o p quad all show ?thesis by blast
qed

end
